theory Spec2Isabelle
  imports Complex_Main "HOL-Library.Word" "HOL-Library.Monad_Syntax"
begin

chapter \<open>The broad-phase core of box2d: dynamic tree, broad phase, stack allocator\<close>

text \<open>
  Conventions of the embedding.
  \<^item> \<open>float\<close> is modelled by \<open>real\<close>: rounding, infinities and NaN are outside the model.
    The functions below only add, subtract, scale, compare and select coordinates.
  \<^item> The \<open>int32\<close> indices, counters and heights of the tree and of the broad phase are
    modelled by \<open>int\<close>; the arena would have to hold \<open>2^30\<close> nodes before one of them
    could leave the \<open>int32\<close> range.  The stack allocator, whose size argument comes
    straight from the caller, uses \<open>32 word\<close> with the signed reading \<open>sint\<close>.
  \<^item> A call that does not return normally (a failed \<open>b2Assert\<close>, or a loop that does not
    terminate) has the value \<open>None\<close> in the tree and the broad phase; the stack allocator,
    which has no loops, returns \<open>Inl AssertionFailed\<close>.
\<close>

section \<open>Geometry primitives (b2\_collision.h)\<close>

text \<open>The fields \<open>x\<close> and \<open>y\<close> of \<open>b2Vec2\<close> are called \<open>vx\<close> and \<open>vy\<close> here.\<close>

record b2Vec2 =
  vx :: real
  vy :: real

record b2AABB =
  lowerBound :: b2Vec2
  upperBound :: b2Vec2

text \<open>
  Modelled from the spec: \<open>b2_math.h\<close> is not among the sources.  The vector operators
  are component-wise; \<open>b2Min\<close> and \<open>b2Max\<close> on vectors are the component-wise minimum and
  maximum, so that \<open>Combine\<close> is the union of two boxes.
\<close>

definition vec_add :: "b2Vec2 \<Rightarrow> b2Vec2 \<Rightarrow> b2Vec2" where
  "vec_add a b = \<lparr>vx = vx a + vx b, vy = vy a + vy b\<rparr>"

definition vec_sub :: "b2Vec2 \<Rightarrow> b2Vec2 \<Rightarrow> b2Vec2" where
  "vec_sub a b = \<lparr>vx = vx a - vx b, vy = vy a - vy b\<rparr>"

definition vec_scale :: "real \<Rightarrow> b2Vec2 \<Rightarrow> b2Vec2" where
  "vec_scale s a = \<lparr>vx = s * vx a, vy = s * vy a\<rparr>"

definition b2Min_vec :: "b2Vec2 \<Rightarrow> b2Vec2 \<Rightarrow> b2Vec2" where
  "b2Min_vec a b = \<lparr>vx = min (vx a) (vx b), vy = min (vy a) (vy b)\<rparr>"

definition b2Max_vec :: "b2Vec2 \<Rightarrow> b2Vec2 \<Rightarrow> b2Vec2" where
  "b2Max_vec a b = \<lparr>vx = max (vx a) (vx b), vy = max (vy a) (vy b)\<rparr>"

text \<open>\<open>b2AABB::GetPerimeter\<close>.\<close>

definition GetPerimeter :: "b2AABB \<Rightarrow> real" where
  "GetPerimeter a =
     (let wx = vx (upperBound a) - vx (lowerBound a);
          wy = vy (upperBound a) - vy (lowerBound a)
      in 2 * (wx + wy))"

text \<open>\<open>b2AABB::Combine(aabb1, aabb2)\<close>: the value written into \<open>*this\<close>.\<close>

definition Combine :: "b2AABB \<Rightarrow> b2AABB \<Rightarrow> b2AABB" where
  "Combine aabb1 aabb2 =
     \<lparr>lowerBound = b2Min_vec (lowerBound aabb1) (lowerBound aabb2),
      upperBound = b2Max_vec (upperBound aabb1) (upperBound aabb2)\<rparr>"

text \<open>\<open>b2AABB::Contains\<close>: \<open>Contains a b\<close> is \<open>a.Contains(b)\<close>.\<close>

definition Contains :: "b2AABB \<Rightarrow> b2AABB \<Rightarrow> bool" where
  "Contains a b =
     (vx (lowerBound a) \<le> vx (lowerBound b) \<and>
      vy (lowerBound a) \<le> vy (lowerBound b) \<and>
      vx (upperBound b) \<le> vx (upperBound a) \<and>
      vy (upperBound b) \<le> vy (upperBound a))"

text \<open>\<open>b2TestOverlap(const b2AABB&, const b2AABB&)\<close>.\<close>

definition b2TestOverlap :: "b2AABB \<Rightarrow> b2AABB \<Rightarrow> bool" where
  "b2TestOverlap a b =
     (let d1 = vec_sub (lowerBound b) (upperBound a);
          d2 = vec_sub (lowerBound a) (upperBound b)
      in if vx d1 > 0 \<or> vy d1 > 0 then False
         else if vx d2 > 0 \<or> vy d2 > 0 then False
         else True)"

section \<open>The stack allocator (b2\_stack\_allocator.h, b2\_stack\_allocator.cpp)\<close>

type_synonym int32 = "32 word"

datatype error = AssertionFailed

text \<open>
  A \<open>char*\<close> handed out by the allocator points either into the arena \<open>m_data\<close>, at an
  offset, or to a block of the system heap.
\<close>

datatype pointer = Arena int32 | Heap nat

text \<open>
  Modelled from the spec: \<open>b2Alloc\<close> and \<open>b2Free\<close> (\<open>b2_settings.h\<close>, not among the
  sources) are the system heap.  The heap is the list of its live blocks with their sizes,
  and a counter that names the next block.
\<close>

record sysheap =
  live_blocks :: "(nat \<times> int32) list"
  next_block :: nat

definition b2Alloc :: "int32 \<Rightarrow> sysheap \<Rightarrow> pointer \<times> sysheap" where
  "b2Alloc sz h =
     (Heap (next_block h),
      h\<lparr>live_blocks := (next_block h, sz) # live_blocks h, next_block := Suc (next_block h)\<rparr>)"

fun b2Free :: "pointer \<Rightarrow> sysheap \<Rightarrow> sysheap" where
  "b2Free (Heap b) h = h\<lparr>live_blocks := filter (\<lambda>e. fst e \<noteq> b) (live_blocks h)\<rparr>"
| "b2Free (Arena off) h = h"

definition b2_stackSize :: int32 where
  "b2_stackSize = 100 * 1024"

definition b2_maxStackEntries :: int32 where
  "b2_maxStackEntries = 32"

record b2StackEntry =
  data :: pointer
  entry_size :: int32
  usedMalloc :: bool

record b2StackAllocator =
  m_index :: int32
  m_allocation :: int32
  m_maxAllocation :: int32
  m_entries :: "b2StackEntry list"
  m_entryCount :: int32
  heap :: sysheap

text \<open>
  The constructor.  The 32 entries of \<open>m_entries\<close> are not initialised by the source; the
  model fills them with a fixed entry that no function reads before writing it.
\<close>

definition b2StackAllocator_init :: "sysheap \<Rightarrow> b2StackAllocator" where
  "b2StackAllocator_init h =
     \<lparr>m_index = 0, m_allocation = 0, m_maxAllocation = 0,
      m_entries = replicate 32 \<lparr>data = Arena 0, entry_size = 0, usedMalloc = False\<rparr>,
      m_entryCount = 0, heap = h\<rparr>"

text \<open>\<open>b2Max\<close> on \<open>int32\<close>: \<open>a > b ? a : b\<close> with the signed comparison.\<close>

definition b2Max_i32 :: "int32 \<Rightarrow> int32 \<Rightarrow> int32" where
  "b2Max_i32 a b = (if b <s a then a else b)"

text \<open>\<open>b2StackAllocator::Allocate\<close>: the returned pointer and the new state.\<close>

definition Allocate :: "int32 \<Rightarrow> b2StackAllocator \<Rightarrow> error + (pointer \<times> b2StackAllocator)" where
  "Allocate sz s =
     (if \<not> (m_entryCount s <s b2_maxStackEntries) then Inl AssertionFailed
      else
        let k = nat (sint (m_entryCount s));
            (entry, s1) =
              (if b2_stackSize <s m_index s + sz
               then (let (p, h') = b2Alloc sz (heap s)
                     in (\<lparr>data = p, entry_size = sz, usedMalloc = True\<rparr>, s\<lparr>heap := h'\<rparr>))
               else (\<lparr>data = Arena (m_index s), entry_size = sz, usedMalloc = False\<rparr>,
                     s\<lparr>m_index := m_index s + sz\<rparr>));
            s2 = s1\<lparr>m_entries := (m_entries s1)[k := entry]\<rparr>;
            s3 = s2\<lparr>m_allocation := m_allocation s2 + sz\<rparr>;
            s4 = s3\<lparr>m_maxAllocation := b2Max_i32 (m_maxAllocation s3) (m_allocation s3)\<rparr>;
            s5 = s4\<lparr>m_entryCount := m_entryCount s4 + 1\<rparr>
        in Inr (data entry, s5))"

text \<open>\<open>b2StackAllocator::Free\<close>.  The final \<open>p = nullptr\<close> only changes the local copy.\<close>

definition Free :: "pointer \<Rightarrow> b2StackAllocator \<Rightarrow> error + b2StackAllocator" where
  "Free p s =
     (if \<not> (0 <s m_entryCount s) then Inl AssertionFailed
      else
        let entry = m_entries s ! nat (sint (m_entryCount s - 1)) in
        if p \<noteq> data entry then Inl AssertionFailed
        else
          let s1 = (if usedMalloc entry then s\<lparr>heap := b2Free p (heap s)\<rparr>
                    else s\<lparr>m_index := m_index s - entry_size entry\<rparr>);
              s2 = s1\<lparr>m_allocation := m_allocation s1 - entry_size entry\<rparr>
          in Inr (s2\<lparr>m_entryCount := m_entryCount s2 - 1\<rparr>))"


section \<open>The dynamic tree (b2\_dynamic\_tree.cpp)\<close>

definition b2_nullNode :: int where
  "b2_nullNode = - 1"

text \<open>
  Modelled from the spec: the struct \<open>b2TreeNode\<close> (\<open>b2_dynamic_tree.h\<close> is not among
  the sources).  \<open>parent\<close> and \<open>next\<close> are one field (a union in the source): the parent
  of an allocated node, the next free slot of a free one.  \<open>userData\<close> is a \<open>void*\<close>,
  modelled by an address, \<open>0\<close> being \<open>nullptr\<close>.
\<close>

record b2TreeNode =
  aabb :: b2AABB
  userData :: nat
  parent :: int
  child1 :: int
  child2 :: int
  height :: int
  moved :: bool

definition IsLeaf :: "b2TreeNode \<Rightarrow> bool" where
  "IsLeaf n = (child1 n = b2_nullNode)"

record b2DynamicTree =
  m_root :: int
  m_nodes :: "b2TreeNode list"
  m_nodeCount :: int
  m_nodeCapacity :: int
  m_freeList :: int
  m_insertionCount :: int

text \<open>
  The array \<open>m_nodes\<close> is a list whose length is the number of allocated slots.  Reading
  or writing outside of it is undefined behaviour in the source; in the model such a read
  yields the zeroed node and such a write does nothing.  Memory obtained from \<open>b2Alloc\<close>
  is indeterminate in the source and zeroed in the model.
\<close>

definition b2_zeroNode :: b2TreeNode where
  "b2_zeroNode =
     \<lparr>aabb = \<lparr>lowerBound = \<lparr>vx = 0, vy = 0\<rparr>, upperBound = \<lparr>vx = 0, vy = 0\<rparr>\<rparr>,
      userData = 0, parent = 0, child1 = 0, child2 = 0, height = 0, moved = False\<rparr>"

definition nodeAt :: "b2TreeNode list \<Rightarrow> int \<Rightarrow> b2TreeNode" where
  "nodeAt ns i = (if 0 \<le> i \<and> i < int (length ns) then ns ! nat i else b2_zeroNode)"

definition upd :: "int \<Rightarrow> (b2TreeNode \<Rightarrow> b2TreeNode) \<Rightarrow> b2TreeNode list \<Rightarrow> b2TreeNode list" where
  "upd i f ns = (if 0 \<le> i \<and> i < int (length ns) then ns[nat i := f (ns ! nat i)] else ns)"

text \<open>\<open>nd t i\<close> is \<open>m_nodes[i]\<close>; \<open>wr i f t\<close> writes \<open>f (m_nodes[i])\<close> into \<open>m_nodes[i]\<close>.\<close>

definition nd :: "b2DynamicTree \<Rightarrow> int \<Rightarrow> b2TreeNode" where
  "nd t i = nodeAt (m_nodes t) i"

definition wr :: "int \<Rightarrow> (b2TreeNode \<Rightarrow> b2TreeNode) \<Rightarrow> b2DynamicTree \<Rightarrow> b2DynamicTree" where
  "wr i f t = t\<lparr>m_nodes := upd i f (m_nodes t)\<rparr>"

text \<open>
  The loop \<open>for (i = lo; i < hi; ++i) { m_nodes[i].next = i + 1; m_nodes[i].height = -1; }\<close>
  of the constructor and of \<open>AllocateNode\<close>.
\<close>

function link_free :: "int \<Rightarrow> int \<Rightarrow> b2TreeNode list \<Rightarrow> b2TreeNode list" where
  "link_free i hi ns =
     (if i < hi
      then link_free (i + 1) hi (upd i (\<lambda>n. n\<lparr>height := - 1\<rparr>) (upd i (\<lambda>n. n\<lparr>parent := i + 1\<rparr>) ns))
      else ns)"
  by pat_completeness auto
termination
  by (relation "measure (\<lambda>(i, hi, ns). nat (hi - i))") auto

declare link_free.simps [simp del]

text \<open>The constructor \<open>b2DynamicTree::b2DynamicTree\<close>.\<close>

definition b2DynamicTree_init :: b2DynamicTree where
  "b2DynamicTree_init =
     (let cap = 16;
          ns0 = replicate (nat cap) b2_zeroNode;
          ns1 = link_free 0 (cap - 1) ns0;
          ns2 = upd (cap - 1) (\<lambda>n. n\<lparr>parent := b2_nullNode\<rparr>) ns1;
          ns3 = upd (cap - 1) (\<lambda>n. n\<lparr>height := - 1\<rparr>) ns2
      in \<lparr>m_root = b2_nullNode, m_nodes = ns3, m_nodeCount = 0, m_nodeCapacity = cap,
          m_freeList = 0, m_insertionCount = 0\<rparr>)"

text \<open>
  \<open>b2DynamicTree::AllocateNode\<close>: the node id and the new tree.  \<open>grow_pool\<close> is the
  body of \<open>if (m_freeList == b2_nullNode)\<close> after its assertion, \<open>peel_node\<close> the rest
  of the function.
\<close>

definition grow_pool :: "b2DynamicTree \<Rightarrow> b2DynamicTree" where
  "grow_pool t =
     (let cap = m_nodeCapacity t * 2;
          ns0 = take (nat (m_nodeCount t)) (m_nodes t)
                @ replicate (nat cap - nat (m_nodeCount t)) b2_zeroNode;
          ns1 = link_free (m_nodeCount t) (cap - 1) ns0;
          ns2 = upd (cap - 1) (\<lambda>n. n\<lparr>parent := b2_nullNode\<rparr>) ns1;
          ns3 = upd (cap - 1) (\<lambda>n. n\<lparr>height := - 1\<rparr>) ns2
      in t\<lparr>m_nodeCapacity := cap, m_nodes := ns3, m_freeList := m_nodeCount t\<rparr>)"

definition peel_node :: "b2DynamicTree \<Rightarrow> int \<times> b2DynamicTree" where
  "peel_node t =
     (let nodeId = m_freeList t;
          t1 = t\<lparr>m_freeList := parent (nd t nodeId)\<rparr>;
          t2 = wr nodeId (\<lambda>n. n\<lparr>parent := b2_nullNode\<rparr>) t1;
          t3 = wr nodeId (\<lambda>n. n\<lparr>child1 := b2_nullNode\<rparr>) t2;
          t4 = wr nodeId (\<lambda>n. n\<lparr>child2 := b2_nullNode\<rparr>) t3;
          t5 = wr nodeId (\<lambda>n. n\<lparr>height := 0\<rparr>) t4;
          t6 = wr nodeId (\<lambda>n. n\<lparr>userData := 0\<rparr>) t5;
          t7 = wr nodeId (\<lambda>n. n\<lparr>moved := False\<rparr>) t6
      in (nodeId, t7\<lparr>m_nodeCount := m_nodeCount t7 + 1\<rparr>))"

definition AllocateNode :: "b2DynamicTree \<Rightarrow> (int \<times> b2DynamicTree) option" where
  "AllocateNode t =
     (if m_freeList t = b2_nullNode
      then (if m_nodeCount t \<noteq> m_nodeCapacity t then None
            else Some (peel_node (grow_pool t)))
      else Some (peel_node t))"

text \<open>\<open>b2DynamicTree::FreeNode\<close>.\<close>

definition FreeNode :: "int \<Rightarrow> b2DynamicTree \<Rightarrow> b2DynamicTree option" where
  "FreeNode nodeId t =
     (if \<not> (0 \<le> nodeId \<and> nodeId < m_nodeCapacity t) then None
      else if \<not> (0 < m_nodeCount t) then None
      else
        let t1 = wr nodeId (\<lambda>n. n\<lparr>parent := m_freeList t\<rparr>) t;
            t2 = wr nodeId (\<lambda>n. n\<lparr>height := - 1\<rparr>) t1;
            t3 = t2\<lparr>m_freeList := nodeId\<rparr>
        in Some (t3\<lparr>m_nodeCount := m_nodeCount t3 - 1\<rparr>))"

text \<open>
  \<open>b2DynamicTree::Balance\<close>: the returned index and the new tree.  \<open>A\<close>, \<open>B\<close>, \<open>C\<close>, \<open>D\<close>,
  \<open>E\<close>, \<open>F\<close>, \<open>G\<close> are pointers into \<open>m_nodes\<close> in the source: every read through them
  sees the writes made before it, so the model reads from the current tree at each step.
  \<open>rotate_C_up\<close> and \<open>rotate_B_up\<close> are the bodies of \<open>if (balance > 1)\<close> and
  \<open>if (balance < -1)\<close>.
\<close>

definition rotate_C_up :: "int \<Rightarrow> int \<Rightarrow> int \<Rightarrow> b2DynamicTree \<Rightarrow> (int \<times> b2DynamicTree) option" where
  "rotate_C_up iA iB iC t =
     (let iF = child1 (nd t iC); iG = child2 (nd t iC) in
      if \<not> (0 \<le> iF \<and> iF < m_nodeCapacity t) then None
      else if \<not> (0 \<le> iG \<and> iG < m_nodeCapacity t) then None
      else do {
        let t1 = wr iC (\<lambda>n. n\<lparr>child1 := iA\<rparr>) t;
        let t2 = wr iC (\<lambda>n. n\<lparr>parent := parent (nd t1 iA)\<rparr>) t1;
        let t3 = wr iA (\<lambda>n. n\<lparr>parent := iC\<rparr>) t2;
        t4 \<leftarrow> (if parent (nd t3 iC) \<noteq> b2_nullNode
               then (if child1 (nd t3 (parent (nd t3 iC))) = iA
                     then Some (wr (parent (nd t3 iC)) (\<lambda>n. n\<lparr>child1 := iC\<rparr>) t3)
                     else if child2 (nd t3 (parent (nd t3 iC))) \<noteq> iA then None
                     else Some (wr (parent (nd t3 iC)) (\<lambda>n. n\<lparr>child2 := iC\<rparr>) t3))
               else Some (t3\<lparr>m_root := iC\<rparr>));
        if height (nd t4 iF) > height (nd t4 iG)
        then do {
          let t5 = wr iC (\<lambda>n. n\<lparr>child2 := iF\<rparr>) t4;
          let t6 = wr iA (\<lambda>n. n\<lparr>child2 := iG\<rparr>) t5;
          let t7 = wr iG (\<lambda>n. n\<lparr>parent := iA\<rparr>) t6;
          let t8 = wr iA (\<lambda>n. n\<lparr>aabb := Combine (aabb (nd t7 iB)) (aabb (nd t7 iG))\<rparr>) t7;
          let t9 = wr iC (\<lambda>n. n\<lparr>aabb := Combine (aabb (nd t8 iA)) (aabb (nd t8 iF))\<rparr>) t8;
          let t10 = wr iA (\<lambda>n. n\<lparr>height := 1 + max (height (nd t9 iB)) (height (nd t9 iG))\<rparr>) t9;
          let t11 = wr iC (\<lambda>n. n\<lparr>height := 1 + max (height (nd t10 iA)) (height (nd t10 iF))\<rparr>) t10;
          Some (iC, t11) }
        else do {
          let t5 = wr iC (\<lambda>n. n\<lparr>child2 := iG\<rparr>) t4;
          let t6 = wr iA (\<lambda>n. n\<lparr>child2 := iF\<rparr>) t5;
          let t7 = wr iF (\<lambda>n. n\<lparr>parent := iA\<rparr>) t6;
          let t8 = wr iA (\<lambda>n. n\<lparr>aabb := Combine (aabb (nd t7 iB)) (aabb (nd t7 iF))\<rparr>) t7;
          let t9 = wr iC (\<lambda>n. n\<lparr>aabb := Combine (aabb (nd t8 iA)) (aabb (nd t8 iG))\<rparr>) t8;
          let t10 = wr iA (\<lambda>n. n\<lparr>height := 1 + max (height (nd t9 iB)) (height (nd t9 iF))\<rparr>) t9;
          let t11 = wr iC (\<lambda>n. n\<lparr>height := 1 + max (height (nd t10 iA)) (height (nd t10 iG))\<rparr>) t10;
          Some (iC, t11) } })"

definition rotate_B_up :: "int \<Rightarrow> int \<Rightarrow> int \<Rightarrow> b2DynamicTree \<Rightarrow> (int \<times> b2DynamicTree) option" where
  "rotate_B_up iA iB iC t =
     (let iD = child1 (nd t iB); iE = child2 (nd t iB) in
      if \<not> (0 \<le> iD \<and> iD < m_nodeCapacity t) then None
      else if \<not> (0 \<le> iE \<and> iE < m_nodeCapacity t) then None
      else do {
        let t1 = wr iB (\<lambda>n. n\<lparr>child1 := iA\<rparr>) t;
        let t2 = wr iB (\<lambda>n. n\<lparr>parent := parent (nd t1 iA)\<rparr>) t1;
        let t3 = wr iA (\<lambda>n. n\<lparr>parent := iB\<rparr>) t2;
        t4 \<leftarrow> (if parent (nd t3 iB) \<noteq> b2_nullNode
               then (if child1 (nd t3 (parent (nd t3 iB))) = iA
                     then Some (wr (parent (nd t3 iB)) (\<lambda>n. n\<lparr>child1 := iB\<rparr>) t3)
                     else if child2 (nd t3 (parent (nd t3 iB))) \<noteq> iA then None
                     else Some (wr (parent (nd t3 iB)) (\<lambda>n. n\<lparr>child2 := iB\<rparr>) t3))
               else Some (t3\<lparr>m_root := iB\<rparr>));
        if height (nd t4 iD) > height (nd t4 iE)
        then do {
          let t5 = wr iB (\<lambda>n. n\<lparr>child2 := iD\<rparr>) t4;
          let t6 = wr iA (\<lambda>n. n\<lparr>child1 := iE\<rparr>) t5;
          let t7 = wr iE (\<lambda>n. n\<lparr>parent := iA\<rparr>) t6;
          let t8 = wr iA (\<lambda>n. n\<lparr>aabb := Combine (aabb (nd t7 iC)) (aabb (nd t7 iE))\<rparr>) t7;
          let t9 = wr iB (\<lambda>n. n\<lparr>aabb := Combine (aabb (nd t8 iA)) (aabb (nd t8 iD))\<rparr>) t8;
          let t10 = wr iA (\<lambda>n. n\<lparr>height := 1 + max (height (nd t9 iC)) (height (nd t9 iE))\<rparr>) t9;
          let t11 = wr iB (\<lambda>n. n\<lparr>height := 1 + max (height (nd t10 iA)) (height (nd t10 iD))\<rparr>) t10;
          Some (iB, t11) }
        else do {
          let t5 = wr iB (\<lambda>n. n\<lparr>child2 := iE\<rparr>) t4;
          let t6 = wr iA (\<lambda>n. n\<lparr>child1 := iD\<rparr>) t5;
          let t7 = wr iD (\<lambda>n. n\<lparr>parent := iA\<rparr>) t6;
          let t8 = wr iA (\<lambda>n. n\<lparr>aabb := Combine (aabb (nd t7 iC)) (aabb (nd t7 iD))\<rparr>) t7;
          let t9 = wr iB (\<lambda>n. n\<lparr>aabb := Combine (aabb (nd t8 iA)) (aabb (nd t8 iE))\<rparr>) t8;
          let t10 = wr iA (\<lambda>n. n\<lparr>height := 1 + max (height (nd t9 iC)) (height (nd t9 iD))\<rparr>) t9;
          let t11 = wr iB (\<lambda>n. n\<lparr>height := 1 + max (height (nd t10 iA)) (height (nd t10 iE))\<rparr>) t10;
          Some (iB, t11) } })"

definition Balance :: "int \<Rightarrow> b2DynamicTree \<Rightarrow> (int \<times> b2DynamicTree) option" where
  "Balance iA t =
     (if iA = b2_nullNode then None
      else if IsLeaf (nd t iA) \<or> height (nd t iA) < 2 then Some (iA, t)
      else
        let iB = child1 (nd t iA); iC = child2 (nd t iA) in
        if \<not> (0 \<le> iB \<and> iB < m_nodeCapacity t) then None
        else if \<not> (0 \<le> iC \<and> iC < m_nodeCapacity t) then None
        else
          let balance = height (nd t iC) - height (nd t iB) in
          if balance > 1 then rotate_C_up iA iB iC t
          else if balance < - 1 then rotate_B_up iA iB iC t
          else Some (iA, t))"

text \<open>
  \<open>b2DynamicTree::InsertLeaf\<close>.  \<open>InsertLeaf_descend\<close> is the loop that looks for the best
  sibling, started at the root; \<open>InsertLeaf_fix\<close> is the loop that walks back up the tree.
\<close>

partial_function (option) InsertLeaf_descend :: "b2DynamicTree \<Rightarrow> b2AABB \<Rightarrow> int \<Rightarrow> int option" where
  "InsertLeaf_descend t leafAABB index =
     (if IsLeaf (nd t index) then Some index
      else
        let c1 = child1 (nd t index);
            c2 = child2 (nd t index);
            area = GetPerimeter (aabb (nd t index));
            combinedAABB = Combine (aabb (nd t index)) leafAABB;
            combinedArea = GetPerimeter combinedAABB;
            cost = 2 * combinedArea;
            inheritanceCost = 2 * (combinedArea - area);
            cost1 = (if IsLeaf (nd t c1)
                     then GetPerimeter (Combine leafAABB (aabb (nd t c1))) + inheritanceCost
                     else (let oldArea = GetPerimeter (aabb (nd t c1));
                               newArea = GetPerimeter (Combine leafAABB (aabb (nd t c1)))
                           in (newArea - oldArea) + inheritanceCost));
            cost2 = (if IsLeaf (nd t c2)
                     then GetPerimeter (Combine leafAABB (aabb (nd t c2))) + inheritanceCost
                     else (let oldArea = GetPerimeter (aabb (nd t c2));
                               newArea = GetPerimeter (Combine leafAABB (aabb (nd t c2)))
                           in newArea - oldArea + inheritanceCost))
        in if cost < cost1 \<and> cost < cost2 then Some index
           else if cost1 < cost2 then InsertLeaf_descend t leafAABB c1
           else InsertLeaf_descend t leafAABB c2)"

partial_function (option) InsertLeaf_fix :: "int \<Rightarrow> b2DynamicTree \<Rightarrow> b2DynamicTree option" where
  "InsertLeaf_fix index t =
     (if index = b2_nullNode then Some t
      else do {
        (index1, t1) \<leftarrow> Balance index t;
        let c1 = child1 (nd t1 index1);
        let c2 = child2 (nd t1 index1);
        if c1 = b2_nullNode then None
        else if c2 = b2_nullNode then None
        else do {
          let t2 = wr index1 (\<lambda>n. n\<lparr>height := 1 + max (height (nd t1 c1)) (height (nd t1 c2))\<rparr>) t1;
          let t3 = wr index1 (\<lambda>n. n\<lparr>aabb := Combine (aabb (nd t2 c1)) (aabb (nd t2 c2))\<rparr>) t2;
          InsertLeaf_fix (parent (nd t3 index1)) t3 } })"

definition InsertLeaf :: "int \<Rightarrow> b2DynamicTree \<Rightarrow> b2DynamicTree option" where
  "InsertLeaf leaf t =
     (let t0 = t\<lparr>m_insertionCount := m_insertionCount t + 1\<rparr> in
      if m_root t0 = b2_nullNode
      then (let t1 = t0\<lparr>m_root := leaf\<rparr>
            in Some (wr (m_root t1) (\<lambda>n. n\<lparr>parent := b2_nullNode\<rparr>) t1))
      else do {
        let leafAABB = aabb (nd t0 leaf);
        sibling \<leftarrow> InsertLeaf_descend t0 leafAABB (m_root t0);
        let oldParent = parent (nd t0 sibling);
        (newParent, t1) \<leftarrow> AllocateNode t0;
        let t2 = wr newParent (\<lambda>n. n\<lparr>parent := oldParent\<rparr>) t1;
        let t3 = wr newParent (\<lambda>n. n\<lparr>userData := 0\<rparr>) t2;
        let t4 = wr newParent (\<lambda>n. n\<lparr>aabb := Combine leafAABB (aabb (nd t3 sibling))\<rparr>) t3;
        let t5 = wr newParent (\<lambda>n. n\<lparr>height := height (nd t4 sibling) + 1\<rparr>) t4;
        let t6 =
          (if oldParent \<noteq> b2_nullNode
           then (let u1 = (if child1 (nd t5 oldParent) = sibling
                           then wr oldParent (\<lambda>n. n\<lparr>child1 := newParent\<rparr>) t5
                           else wr oldParent (\<lambda>n. n\<lparr>child2 := newParent\<rparr>) t5);
                     u2 = wr newParent (\<lambda>n. n\<lparr>child1 := sibling\<rparr>) u1;
                     u3 = wr newParent (\<lambda>n. n\<lparr>child2 := leaf\<rparr>) u2;
                     u4 = wr sibling (\<lambda>n. n\<lparr>parent := newParent\<rparr>) u3
                 in wr leaf (\<lambda>n. n\<lparr>parent := newParent\<rparr>) u4)
           else (let u1 = wr newParent (\<lambda>n. n\<lparr>child1 := sibling\<rparr>) t5;
                     u2 = wr newParent (\<lambda>n. n\<lparr>child2 := leaf\<rparr>) u1;
                     u3 = wr sibling (\<lambda>n. n\<lparr>parent := newParent\<rparr>) u2;
                     u4 = wr leaf (\<lambda>n. n\<lparr>parent := newParent\<rparr>) u3
                 in u4\<lparr>m_root := newParent\<rparr>));
        InsertLeaf_fix (parent (nd t6 leaf)) t6 })"

text \<open>
  \<open>b2DynamicTree::RemoveLeaf\<close>; \<open>RemoveLeaf_fix\<close> is its loop that adjusts the ancestors.
\<close>

partial_function (option) RemoveLeaf_fix :: "int \<Rightarrow> b2DynamicTree \<Rightarrow> b2DynamicTree option" where
  "RemoveLeaf_fix index t =
     (if index = b2_nullNode then Some t
      else do {
        (index1, t1) \<leftarrow> Balance index t;
        let c1 = child1 (nd t1 index1);
        let c2 = child2 (nd t1 index1);
        let t2 = wr index1 (\<lambda>n. n\<lparr>aabb := Combine (aabb (nd t1 c1)) (aabb (nd t1 c2))\<rparr>) t1;
        let t3 = wr index1 (\<lambda>n. n\<lparr>height := 1 + max (height (nd t2 c1)) (height (nd t2 c2))\<rparr>) t2;
        RemoveLeaf_fix (parent (nd t3 index1)) t3 })"

definition RemoveLeaf :: "int \<Rightarrow> b2DynamicTree \<Rightarrow> b2DynamicTree option" where
  "RemoveLeaf leaf t =
     (if leaf = m_root t then Some (t\<lparr>m_root := b2_nullNode\<rparr>)
      else
        let parent' = parent (nd t leaf);
            grandParent = parent (nd t parent');
            sibling = (if child1 (nd t parent') = leaf then child2 (nd t parent')
                       else child1 (nd t parent'))
        in if grandParent \<noteq> b2_nullNode
           then do {
             let t1 = (if child1 (nd t grandParent) = parent'
                       then wr grandParent (\<lambda>n. n\<lparr>child1 := sibling\<rparr>) t
                       else wr grandParent (\<lambda>n. n\<lparr>child2 := sibling\<rparr>) t);
             let t2 = wr sibling (\<lambda>n. n\<lparr>parent := grandParent\<rparr>) t1;
             t3 \<leftarrow> FreeNode parent' t2;
             RemoveLeaf_fix grandParent t3 }
           else do {
             let t1 = t\<lparr>m_root := sibling\<rparr>;
             let t2 = wr sibling (\<lambda>n. n\<lparr>parent := b2_nullNode\<rparr>) t1;
             FreeNode parent' t2 })"

text \<open>
  \<open>b2DynamicTree::CreateProxy\<close>, \<open>DestroyProxy\<close> and \<open>MoveProxy\<close>.  The constants
  \<open>b2_aabbExtension\<close> and \<open>b2_aabbMultiplier\<close> are defined in \<open>b2_common.h\<close>, which is not
  among the sources: they are parameters of the functions that use them.
\<close>

definition CreateProxy ::
  "real \<Rightarrow> b2AABB \<Rightarrow> nat \<Rightarrow> b2DynamicTree \<Rightarrow> (int \<times> b2DynamicTree) option" where
  "CreateProxy b2_aabbExtension box ud t =
     do {
       (proxyId, t1) \<leftarrow> AllocateNode t;
       let r = \<lparr>vx = b2_aabbExtension, vy = b2_aabbExtension\<rparr>;
       let t2 = wr proxyId (\<lambda>n. n\<lparr>aabb := (aabb n)\<lparr>lowerBound := vec_sub (lowerBound box) r\<rparr>\<rparr>) t1;
       let t3 = wr proxyId (\<lambda>n. n\<lparr>aabb := (aabb n)\<lparr>upperBound := vec_add (upperBound box) r\<rparr>\<rparr>) t2;
       let t4 = wr proxyId (\<lambda>n. n\<lparr>userData := ud\<rparr>) t3;
       let t5 = wr proxyId (\<lambda>n. n\<lparr>height := 0\<rparr>) t4;
       let t6 = wr proxyId (\<lambda>n. n\<lparr>moved := True\<rparr>) t5;
       t7 \<leftarrow> InsertLeaf proxyId t6;
       Some (proxyId, t7)
     }"

definition DestroyProxy :: "int \<Rightarrow> b2DynamicTree \<Rightarrow> b2DynamicTree option" where
  "DestroyProxy proxyId t =
     (if \<not> (0 \<le> proxyId \<and> proxyId < m_nodeCapacity t) then None
      else if \<not> IsLeaf (nd t proxyId) then None
      else do {
        t1 \<leftarrow> RemoveLeaf proxyId t;
        FreeNode proxyId t1 })"

text \<open>The fat AABB that \<open>MoveProxy\<close> computes before it looks at the tree.\<close>

definition MoveProxy_fatAABB :: "real \<Rightarrow> real \<Rightarrow> b2AABB \<Rightarrow> b2Vec2 \<Rightarrow> b2AABB" where
  "MoveProxy_fatAABB b2_aabbExtension b2_aabbMultiplier box displacement =
     (let r = \<lparr>vx = b2_aabbExtension, vy = b2_aabbExtension\<rparr>;
          fat0 = \<lparr>lowerBound = vec_sub (lowerBound box) r, upperBound = vec_add (upperBound box) r\<rparr>;
          d = vec_scale b2_aabbMultiplier displacement;
          fat1 = (if vx d < 0
                  then fat0\<lparr>lowerBound := (lowerBound fat0)\<lparr>vx := vx (lowerBound fat0) + vx d\<rparr>\<rparr>
                  else fat0\<lparr>upperBound := (upperBound fat0)\<lparr>vx := vx (upperBound fat0) + vx d\<rparr>\<rparr>)
      in (if vy d < 0
          then fat1\<lparr>lowerBound := (lowerBound fat1)\<lparr>vy := vy (lowerBound fat1) + vy d\<rparr>\<rparr>
          else fat1\<lparr>upperBound := (upperBound fat1)\<lparr>vy := vy (upperBound fat1) + vy d\<rparr>\<rparr>))"

definition MoveProxy ::
  "real \<Rightarrow> real \<Rightarrow> int \<Rightarrow> b2AABB \<Rightarrow> b2Vec2 \<Rightarrow> b2DynamicTree \<Rightarrow> (bool \<times> b2DynamicTree) option" where
  "MoveProxy b2_aabbExtension b2_aabbMultiplier proxyId box displacement t =
     (if \<not> (0 \<le> proxyId \<and> proxyId < m_nodeCapacity t) then None
      else if \<not> IsLeaf (nd t proxyId) then None
      else
        let r = \<lparr>vx = b2_aabbExtension, vy = b2_aabbExtension\<rparr>;
            fatAABB = MoveProxy_fatAABB b2_aabbExtension b2_aabbMultiplier box displacement;
            treeAABB = aabb (nd t proxyId);
            hugeAABB = \<lparr>lowerBound = vec_sub (lowerBound fatAABB) (vec_scale 4 r),
                        upperBound = vec_add (upperBound fatAABB) (vec_scale 4 r)\<rparr>
        in if Contains treeAABB box \<and> Contains hugeAABB treeAABB then Some (False, t)
           else do {
             t1 \<leftarrow> RemoveLeaf proxyId t;
             let t2 = wr proxyId (\<lambda>n. n\<lparr>aabb := fatAABB\<rparr>) t1;
             t3 \<leftarrow> InsertLeaf proxyId t2;
             Some (True, wr proxyId (\<lambda>n. n\<lparr>moved := True\<rparr>) t3) })"

text \<open>\<open>b2DynamicTree::GetHeight\<close> and the two overloads of \<open>ComputeHeight\<close>.\<close>

definition GetHeight :: "b2DynamicTree \<Rightarrow> int" where
  "GetHeight t = (if m_root t = b2_nullNode then 0 else height (nd t (m_root t)))"

partial_function (option) ComputeHeight_at :: "b2DynamicTree \<Rightarrow> int \<Rightarrow> int option" where
  "ComputeHeight_at t nodeId =
     (if \<not> (0 \<le> nodeId \<and> nodeId < m_nodeCapacity t) then None
      else if IsLeaf (nd t nodeId) then Some 0
      else do {
        height1 \<leftarrow> ComputeHeight_at t (child1 (nd t nodeId));
        height2 \<leftarrow> ComputeHeight_at t (child2 (nd t nodeId));
        Some (1 + max height1 height2) })"

definition ComputeHeight :: "b2DynamicTree \<Rightarrow> int option" where
  "ComputeHeight t = ComputeHeight_at t (m_root t)"

text \<open>
  Modelled from the spec: the inline members of \<open>b2DynamicTree\<close> that the broad phase
  calls are declared in \<open>b2_dynamic_tree.h\<close>, which is not among the sources.
  \<open>GetFatAABB\<close>, \<open>GetUserData\<close> and \<open>WasMoved\<close> read a field of the node, \<open>ClearMoved\<close>
  resets the flag.  \<open>Query\<close> is a pre-order traversal from the root with an explicit
  stack: a node whose box overlaps the query box is reported to the callback when it is a
  leaf (a \<open>false\<close> answer ends the traversal) and has both children pushed otherwise.
  The callback works on a state of its own, of type \<open>'s\<close>.
\<close>

definition GetFatAABB :: "b2DynamicTree \<Rightarrow> int \<Rightarrow> b2AABB" where
  "GetFatAABB t proxyId = aabb (nd t proxyId)"

definition GetUserData :: "b2DynamicTree \<Rightarrow> int \<Rightarrow> nat" where
  "GetUserData t proxyId = userData (nd t proxyId)"

definition WasMoved :: "b2DynamicTree \<Rightarrow> int \<Rightarrow> bool" where
  "WasMoved t proxyId = moved (nd t proxyId)"

definition ClearMoved :: "int \<Rightarrow> b2DynamicTree \<Rightarrow> b2DynamicTree" where
  "ClearMoved proxyId t = wr proxyId (\<lambda>n. n\<lparr>moved := False\<rparr>) t"

partial_function (option) Query_loop ::
  "(int \<Rightarrow> 's \<Rightarrow> bool \<times> 's) \<Rightarrow> b2DynamicTree \<Rightarrow> b2AABB \<Rightarrow> int list \<Rightarrow> 's \<Rightarrow> 's option" where
  "Query_loop callback t box stack s =
     (case stack of
        [] \<Rightarrow> Some s
      | nodeId # rest \<Rightarrow>
          if nodeId = b2_nullNode then Query_loop callback t box rest s
          else if b2TestOverlap (aabb (nd t nodeId)) box
          then (if IsLeaf (nd t nodeId)
                then (let (proceed, s1) = callback nodeId s
                      in if \<not> proceed then Some s1 else Query_loop callback t box rest s1)
                else Query_loop callback t box
                       (child2 (nd t nodeId) # child1 (nd t nodeId) # rest) s)
          else Query_loop callback t box rest s)"

definition Query ::
  "(int \<Rightarrow> 's \<Rightarrow> bool \<times> 's) \<Rightarrow> b2DynamicTree \<Rightarrow> b2AABB \<Rightarrow> 's \<Rightarrow> 's option" where
  "Query callback t box s = Query_loop callback t box [m_root t] s"

section \<open>The broad phase (b2\_broad\_phase.h, b2\_broad\_phase.cpp)\<close>

definition e_nullProxy :: int where
  "e_nullProxy = - 1"

record b2Pair =
  proxyIdA :: int
  proxyIdB :: int

record b2BroadPhase =
  m_tree :: b2DynamicTree
  m_proxyCount :: int
  m_moveBuffer :: "int list"
  m_moveCapacity :: int
  m_moveCount :: int
  m_pairBuffer :: "b2Pair list"
  m_pairCapacity :: int
  m_pairCount :: int
  m_queryProxyId :: int

text \<open>
  \<open>m_moveBuffer\<close> and \<open>m_pairBuffer\<close> are lists as long as their capacity.  As for
  \<open>m_nodes\<close>, fresh memory is zeroed in the model and a write outside a buffer does
  nothing.  The constructor leaves \<open>m_queryProxyId\<close> indeterminate; the model puts
  \<open>e_nullProxy\<close> there.
\<close>

definition array_set :: "'a list \<Rightarrow> int \<Rightarrow> 'a \<Rightarrow> 'a list" where
  "array_set xs i v = (if 0 \<le> i \<and> i < int (length xs) then xs[nat i := v] else xs)"

definition b2BroadPhase_init :: b2BroadPhase where
  "b2BroadPhase_init =
     \<lparr>m_tree = b2DynamicTree_init, m_proxyCount = 0,
      m_moveBuffer = replicate 16 0, m_moveCapacity = 16, m_moveCount = 0,
      m_pairBuffer = replicate 16 \<lparr>proxyIdA = 0, proxyIdB = 0\<rparr>, m_pairCapacity = 16,
      m_pairCount = 0, m_queryProxyId = e_nullProxy\<rparr>"

text \<open>\<open>b2BroadPhase::BufferMove\<close> and \<open>UnBufferMove\<close>.\<close>

definition BufferMove :: "int \<Rightarrow> b2BroadPhase \<Rightarrow> b2BroadPhase" where
  "BufferMove proxyId bp =
     (let bp1 =
            (if m_moveCount bp = m_moveCapacity bp
             then (let cap = m_moveCapacity bp * 2
                   in bp\<lparr>m_moveCapacity := cap,
                         m_moveBuffer := take (nat (m_moveCount bp)) (m_moveBuffer bp)
                                         @ replicate (nat cap - nat (m_moveCount bp)) 0\<rparr>)
             else bp);
          bp2 = bp1\<lparr>m_moveBuffer := array_set (m_moveBuffer bp1) (m_moveCount bp1) proxyId\<rparr>
      in bp2\<lparr>m_moveCount := m_moveCount bp2 + 1\<rparr>)"

definition UnBufferMove :: "int \<Rightarrow> b2BroadPhase \<Rightarrow> b2BroadPhase" where
  "UnBufferMove proxyId bp =
     bp\<lparr>m_moveBuffer :=
          map (\<lambda>e. if e = proxyId then e_nullProxy else e)
              (take (nat (m_moveCount bp)) (m_moveBuffer bp))
          @ drop (nat (m_moveCount bp)) (m_moveBuffer bp)\<rparr>"

text \<open>
  \<open>b2BroadPhase::CreateProxy\<close>, \<open>DestroyProxy\<close>, \<open>MoveProxy\<close> and \<open>TouchProxy\<close>; the prefix
  keeps them apart from the functions of the tree.
\<close>

definition BroadPhase_CreateProxy ::
  "real \<Rightarrow> b2AABB \<Rightarrow> nat \<Rightarrow> b2BroadPhase \<Rightarrow> (int \<times> b2BroadPhase) option" where
  "BroadPhase_CreateProxy b2_aabbExtension box ud bp =
     do {
       (proxyId, t1) \<leftarrow> CreateProxy b2_aabbExtension box ud (m_tree bp);
       let bp1 = bp\<lparr>m_tree := t1\<rparr>;
       let bp2 = bp1\<lparr>m_proxyCount := m_proxyCount bp1 + 1\<rparr>;
       Some (proxyId, BufferMove proxyId bp2)
     }"

definition BroadPhase_DestroyProxy :: "int \<Rightarrow> b2BroadPhase \<Rightarrow> b2BroadPhase option" where
  "BroadPhase_DestroyProxy proxyId bp =
     do {
       let bp1 = UnBufferMove proxyId bp;
       let bp2 = bp1\<lparr>m_proxyCount := m_proxyCount bp1 - 1\<rparr>;
       t1 \<leftarrow> DestroyProxy proxyId (m_tree bp2);
       Some (bp2\<lparr>m_tree := t1\<rparr>)
     }"

definition BroadPhase_MoveProxy ::
  "real \<Rightarrow> real \<Rightarrow> int \<Rightarrow> b2AABB \<Rightarrow> b2Vec2 \<Rightarrow> b2BroadPhase \<Rightarrow> b2BroadPhase option" where
  "BroadPhase_MoveProxy b2_aabbExtension b2_aabbMultiplier proxyId box displacement bp =
     do {
       (buffer, t1) \<leftarrow> MoveProxy b2_aabbExtension b2_aabbMultiplier proxyId box displacement (m_tree bp);
       let bp1 = bp\<lparr>m_tree := t1\<rparr>;
       Some (if buffer then BufferMove proxyId bp1 else bp1)
     }"

definition TouchProxy :: "int \<Rightarrow> b2BroadPhase \<Rightarrow> b2BroadPhase" where
  "TouchProxy proxyId bp = BufferMove proxyId bp"

text \<open>\<open>b2BroadPhase::TestOverlap\<close>.\<close>

definition TestOverlap :: "b2BroadPhase \<Rightarrow> int \<Rightarrow> int \<Rightarrow> bool" where
  "TestOverlap bp proxyIdA' proxyIdB' =
     (let aabbA = GetFatAABB (m_tree bp) proxyIdA';
          aabbB = GetFatAABB (m_tree bp) proxyIdB'
      in b2TestOverlap aabbA aabbB)"

text \<open>\<open>b2BroadPhase::QueryCallback\<close>: the returned flag and the new broad phase.\<close>

definition QueryCallback :: "int \<Rightarrow> b2BroadPhase \<Rightarrow> bool \<times> b2BroadPhase" where
  "QueryCallback proxyId bp =
     (if proxyId = m_queryProxyId bp then (True, bp)
      else
        let moved' = WasMoved (m_tree bp) proxyId in
        if moved' \<and> proxyId > m_queryProxyId bp then (True, bp)
        else
          let bp1 =
                (if m_pairCount bp = m_pairCapacity bp
                 then (let cap = m_pairCapacity bp + drop_bit (1::nat) (m_pairCapacity bp)
                       in bp\<lparr>m_pairCapacity := cap,
                             m_pairBuffer := take (nat (m_pairCount bp)) (m_pairBuffer bp)
                                             @ replicate (nat cap - nat (m_pairCount bp))
                                                 \<lparr>proxyIdA = 0, proxyIdB = 0\<rparr>\<rparr>)
                 else bp);
              bp2 = bp1\<lparr>m_pairBuffer :=
                          array_set (m_pairBuffer bp1) (m_pairCount bp1)
                            \<lparr>proxyIdA = min proxyId (m_queryProxyId bp1),
                             proxyIdB = max proxyId (m_queryProxyId bp1)\<rparr>\<rparr>
          in (True, bp2\<lparr>m_pairCount := m_pairCount bp2 + 1\<rparr>))"

text \<open>
  \<open>b2BroadPhase::UpdatePairs\<close>.  The calls of \<open>callback->AddPair\<close> are the output: the
  list of the pairs of user data passed, in order.  None of the three loops writes
  \<open>m_moveBuffer\<close> or \<open>m_moveCount\<close>, and the second one does not write the pair buffer, so
  each loop runs over the entries it visits: \<open>UpdatePairs_query\<close> and
  \<open>UpdatePairs_clear\<close> over the first \<open>m_moveCount\<close> entries of the move buffer.
\<close>

fun UpdatePairs_query :: "int list \<Rightarrow> b2BroadPhase \<Rightarrow> b2BroadPhase option" where
  "UpdatePairs_query [] bp = Some bp"
| "UpdatePairs_query (e # es) bp =
     (let bp1 = bp\<lparr>m_queryProxyId := e\<rparr> in
      if m_queryProxyId bp1 = e_nullProxy then UpdatePairs_query es bp1
      else do {
        let fatAABB = GetFatAABB (m_tree bp1) (m_queryProxyId bp1);
        bp2 \<leftarrow> Query QueryCallback (m_tree bp1) fatAABB bp1;
        UpdatePairs_query es bp2 })"

fun UpdatePairs_clear :: "int list \<Rightarrow> b2BroadPhase \<Rightarrow> b2BroadPhase" where
  "UpdatePairs_clear [] bp = bp"
| "UpdatePairs_clear (proxyId # es) bp =
     (if proxyId = e_nullProxy then UpdatePairs_clear es bp
      else UpdatePairs_clear es (bp\<lparr>m_tree := ClearMoved proxyId (m_tree bp)\<rparr>))"

definition UpdatePairs :: "b2BroadPhase \<Rightarrow> (b2BroadPhase \<times> (nat \<times> nat) list) option" where
  "UpdatePairs bp =
     do {
       let bp0 = bp\<lparr>m_pairCount := 0\<rparr>;
       bp1 \<leftarrow> UpdatePairs_query (take (nat (m_moveCount bp0)) (m_moveBuffer bp0)) bp0;
       let calls = map (\<lambda>primaryPair.
                          (GetUserData (m_tree bp1) (proxyIdA primaryPair),
                           GetUserData (m_tree bp1) (proxyIdB primaryPair)))
                       (take (nat (m_pairCount bp1)) (m_pairBuffer bp1));
       let bp2 = UpdatePairs_clear (take (nat (m_moveCount bp1)) (m_moveBuffer bp1)) bp1;
       Some (bp2\<lparr>m_moveCount := 0\<rparr>, calls)
     }"

section \<open>Notions used in the statements\<close>

text \<open>
  \<open>is_chain ns i fl\<close>: following the \<open>next\<close> fields from slot \<open>i\<close> visits exactly the
  slots \<open>fl\<close>, in order, and then reaches \<open>b2_nullNode\<close>; every slot visited is inside the
  array and has height \<open>-1\<close>.
\<close>

fun is_chain :: "b2TreeNode list \<Rightarrow> int \<Rightarrow> int list \<Rightarrow> bool" where
  "is_chain ns i [] = (i = b2_nullNode)"
| "is_chain ns i (j # js) =
     (i = j \<and> 0 \<le> j \<and> j < int (length ns) \<and> height (nodeAt ns j) = - 1 \<and>
      is_chain ns (parent (nodeAt ns j)) js)"

text \<open>
  The loop of \<open>b2DynamicTree::Validate\<close> that counts the free list, started with
  \<open>freeIndex = m_freeList\<close> and \<open>freeCount = 0\<close>.
\<close>

partial_function (option) Validate_freeCount :: "b2DynamicTree \<Rightarrow> int \<Rightarrow> int \<Rightarrow> int option" where
  "Validate_freeCount t freeIndex freeCount =
     (if freeIndex \<noteq> b2_nullNode
      then (if \<not> (0 \<le> freeIndex \<and> freeIndex < m_nodeCapacity t) then None
            else Validate_freeCount t (parent (nd t freeIndex)) (freeCount + 1))
      else Some freeCount)"

text \<open>
  A sequence of calls of \<open>AllocateNode\<close> and \<open>FreeNode\<close>, run from a given pool; the run
  stops with \<open>None\<close> at the first call that fails an assertion.
\<close>

datatype pool_call = Call_AllocateNode | Call_FreeNode int

fun run_pool :: "pool_call list \<Rightarrow> b2DynamicTree \<Rightarrow> b2DynamicTree option" where
  "run_pool [] t = Some t"
| "run_pool (Call_AllocateNode # cs) t =
     (case AllocateNode t of None \<Rightarrow> None | Some (i, t') \<Rightarrow> run_pool cs t')"
| "run_pool (Call_FreeNode i # cs) t =
     (case FreeNode i t of None \<Rightarrow> None | Some t' \<Rightarrow> run_pool cs t')"

text \<open>The pool after two allocations and two calls of \<open>FreeNode\<close> on slot 0.\<close>

definition double_free_pool :: b2DynamicTree where
  "double_free_pool =
     the (run_pool [Call_AllocateNode, Call_AllocateNode, Call_FreeNode 0, Call_FreeNode 0]
            b2DynamicTree_init)"

text \<open>
  The states of the node pool reached from the constructor by calls of \<open>AllocateNode\<close> and
  \<open>FreeNode\<close> that return, every \<open>FreeNode\<close> being applied to a slot that is allocated at
  that moment (its height is not \<open>-1\<close>).  \<open>FreeNode\<close> itself asserts only the range of the
  index and \<open>0 < m_nodeCount\<close>.
\<close>

inductive pool_reachable :: "b2DynamicTree \<Rightarrow> bool" where
  pool_init: "pool_reachable b2DynamicTree_init"
| pool_alloc: "pool_reachable t \<Longrightarrow> AllocateNode t = Some (i, t') \<Longrightarrow> pool_reachable t'"
| pool_free: "pool_reachable t \<Longrightarrow> height (nd t i) \<noteq> - 1 \<Longrightarrow> FreeNode i t = Some t'
              \<Longrightarrow> pool_reachable t'"

text \<open>
  The invariant of the node pool: the free list is a chain \<open>fl\<close> without repetition that
  holds exactly the slots of height \<open>-1\<close>, and its length and the node count add up to
  the capacity.
\<close>

definition pool_inv :: "b2DynamicTree \<Rightarrow> int list \<Rightarrow> bool" where
  "pool_inv t fl \<longleftrightarrow>
     int (length (m_nodes t)) = m_nodeCapacity t \<and> 0 < m_nodeCapacity t \<and>
     is_chain (m_nodes t) (m_freeList t) fl \<and> distinct fl \<and>
     set fl = {i. 0 \<le> i \<and> i < m_nodeCapacity t \<and> height (nd t i) = - 1} \<and>
     int (length fl) + m_nodeCount t = m_nodeCapacity t"

section \<open>Geometry and the stack allocator\<close>

text \<open>
  C9.  \<open>b2TestOverlap a b\<close> is false exactly when the gap between the boxes is strictly
  positive on some axis, the gap on an axis being the larger of the two differences
  "lower bound of one box minus upper bound of the other".  Boxes whose largest gap is
  zero (they touch on an edge or at a corner) overlap, and the test is symmetric.
\<close>

theorem b2TestOverlap_gap:
  "(\<not> b2TestOverlap a b \<longleftrightarrow>
      0 < max (vx (lowerBound b) - vx (upperBound a)) (vx (lowerBound a) - vx (upperBound b)) \<or>
      0 < max (vy (lowerBound b) - vy (upperBound a)) (vy (lowerBound a) - vy (upperBound b)))
   \<and> (max (max (vx (lowerBound b) - vx (upperBound a)) (vx (lowerBound a) - vx (upperBound b)))
           (max (vy (lowerBound b) - vy (upperBound a)) (vy (lowerBound a) - vy (upperBound b))) = 0
        \<longrightarrow> b2TestOverlap a b)
   \<and> b2TestOverlap a b = b2TestOverlap b a"
  by (auto simp: b2TestOverlap_def vec_sub_def Let_def max_def split: if_splits)

theorem b2TestOverlap_gap_witness:
  "b2TestOverlap \<lparr>lowerBound = \<lparr>vx = 0, vy = 0\<rparr>, upperBound = \<lparr>vx = 1, vy = 1\<rparr>\<rparr>
                 \<lparr>lowerBound = \<lparr>vx = 1, vy = 1\<rparr>, upperBound = \<lparr>vx = 2, vy = 2\<rparr>\<rparr> \<and>
   \<not> b2TestOverlap \<lparr>lowerBound = \<lparr>vx = 0, vy = 0\<rparr>, upperBound = \<lparr>vx = 1, vy = 1\<rparr>\<rparr>
                 \<lparr>lowerBound = \<lparr>vx = 0, vy = 1.5\<rparr>, upperBound = \<lparr>vx = 1, vy = 2\<rparr>\<rparr>"
  using b2TestOverlap_gap[of "\<lparr>lowerBound = \<lparr>vx = 0, vy = 0\<rparr>, upperBound = \<lparr>vx = 1, vy = 1\<rparr>\<rparr>"
                 "\<lparr>lowerBound = \<lparr>vx = 1, vy = 1\<rparr>, upperBound = \<lparr>vx = 2, vy = 2\<rparr>\<rparr>"]
    b2TestOverlap_gap[of "\<lparr>lowerBound = \<lparr>vx = 0, vy = 0\<rparr>, upperBound = \<lparr>vx = 1, vy = 1\<rparr>\<rparr>"
                 "\<lparr>lowerBound = \<lparr>vx = 0, vy = 1.5\<rparr>, upperBound = \<lparr>vx = 1, vy = 2\<rparr>\<rparr>"]
  by simp

lemma sint_add_no_overflow:
  fixes a b :: int32
  assumes "- (2 ^ 31) \<le> sint a + sint b" "sint a + sint b < 2 ^ 31"
  shows "sint (a + b) = sint a + sint b"
  using assms by (simp add: sint_word_add signed_take_bit_int_eq_self)

lemma sint_succ_small:
  fixes c :: int32
  assumes "0 \<le>s c" "c <s 32"
  shows "sint (c + 1) = sint c + 1"
proof -
  have "0 \<le> sint c" "sint c < 32" using assms by (simp_all add: word_sle_eq word_sless_alt)
  then show ?thesis using sint_add_no_overflow[of c 1] by simp
qed

lemma Free_result:
  "Free p s =
     (if 0 <s m_entryCount s \<and> p = data (m_entries s ! nat (sint (m_entryCount s - 1)))
      then Inr (let e = m_entries s ! nat (sint (m_entryCount s - 1));
                    s1 = (if usedMalloc e then s\<lparr>heap := b2Free p (heap s)\<rparr>
                          else s\<lparr>m_index := m_index s - entry_size e\<rparr>)
                in s1\<lparr>m_allocation := m_allocation s - entry_size e,
                       m_entryCount := m_entryCount s - 1\<rparr>)
      else Inl AssertionFailed)"
  by (simp add: Free_def Let_def)

text \<open>
  What \<open>Free\<close> and \<open>Allocate\<close> do with the top of the entry stack.  \<open>Free p\<close> fails an
  assertion unless the stack is not empty and \<open>p\<close> is the data pointer of its top entry;
  when it returns, the top entry is popped: a heap entry is released to the system heap
  and leaves \<open>m_index\<close> alone, an arena entry lowers \<open>m_index\<close> by its size.  The entry
  pushed by \<open>Allocate\<close> is the top entry afterwards; it is a heap entry exactly when the
  test \<open>m_index + size > b2_stackSize\<close> succeeds, which means that the size exceeds what is
  left of the arena only when the sum stays in the \<open>int32\<close> range.
\<close>

lemma Free_pops_top_entry:
  "(Free p s = Inl AssertionFailed \<longleftrightarrow>
      \<not> (0 <s m_entryCount s \<and> p = data (m_entries s ! nat (sint (m_entryCount s - 1)))))
   \<and> (\<forall>s'. Free p s = Inr s' \<longrightarrow>
        (let e = m_entries s ! nat (sint (m_entryCount s - 1)) in
         m_entryCount s' = m_entryCount s - 1 \<and>
         m_allocation s' = m_allocation s - entry_size e \<and>
         m_entries s' = m_entries s \<and> m_maxAllocation s' = m_maxAllocation s \<and>
         (if usedMalloc e then heap s' = b2Free p (heap s) \<and> m_index s' = m_index s
          else heap s' = heap s \<and> m_index s' = m_index s - entry_size e)))
   \<and> (0 \<le>s m_entryCount s \<and> m_entryCount s <s b2_maxStackEntries \<and> length (m_entries s) = 32 \<longrightarrow>
        (\<exists>q s1. Allocate sz s = Inr (q, s1) \<and>
            m_entryCount s1 = m_entryCount s + 1 \<and>
            m_entries s1 ! nat (sint (m_entryCount s1 - 1))
              = \<lparr>data = q, entry_size = sz, usedMalloc = (b2_stackSize <s m_index s + sz)\<rparr> \<and>
            (\<forall>r. Free r s1 = Inl AssertionFailed \<longleftrightarrow> r \<noteq> q) \<and>
            (if b2_stackSize <s m_index s + sz
             then q = Heap (next_block (heap s)) \<and> m_index s1 = m_index s \<and>
                  live_blocks (heap s1) = (next_block (heap s), sz) # live_blocks (heap s)
             else q = Arena (m_index s) \<and> m_index s1 = m_index s + sz \<and> heap s1 = heap s)))
   \<and> (- (2 ^ 31) \<le> sint (m_index s) + sint sz \<and> sint (m_index s) + sint sz < 2 ^ 31 \<longrightarrow>
        (b2_stackSize <s m_index s + sz \<longleftrightarrow> sint b2_stackSize - sint (m_index s) < sint sz))"
proof (intro conjI allI impI)
  show "Free p s = Inl AssertionFailed \<longleftrightarrow>
      \<not> (0 <s m_entryCount s \<and> p = data (m_entries s ! nat (sint (m_entryCount s - 1))))"
    by (simp add: Free_result)
next
  fix s' assume "Free p s = Inr s'"
  then show "let e = m_entries s ! nat (sint (m_entryCount s - 1)) in
         m_entryCount s' = m_entryCount s - 1 \<and>
         m_allocation s' = m_allocation s - entry_size e \<and>
         m_entries s' = m_entries s \<and> m_maxAllocation s' = m_maxAllocation s \<and>
         (if usedMalloc e then heap s' = b2Free p (heap s) \<and> m_index s' = m_index s
          else heap s' = heap s \<and> m_index s' = m_index s - entry_size e)"
    by (auto simp: Free_result Let_def split: if_splits)
next
  assume h: "0 \<le>s m_entryCount s \<and> m_entryCount s <s b2_maxStackEntries \<and> length (m_entries s) = 32"
  then have c: "0 \<le> sint (m_entryCount s)" "sint (m_entryCount s) < 32"
    by (simp_all add: word_sle_eq word_sless_alt b2_maxStackEntries_def)
  have s1: "sint (m_entryCount s + 1) = sint (m_entryCount s) + 1"
    using h sint_succ_small[of "m_entryCount s"] by (simp add: b2_maxStackEntries_def)
  have pos: "0 <s m_entryCount s + 1" using s1 c by (simp add: word_sless_alt)
  have k: "nat (sint (m_entryCount s)) < length (m_entries s)" using h c by simp
  show "\<exists>q s1. Allocate sz s = Inr (q, s1) \<and>
            m_entryCount s1 = m_entryCount s + 1 \<and>
            m_entries s1 ! nat (sint (m_entryCount s1 - 1))
              = \<lparr>data = q, entry_size = sz, usedMalloc = (b2_stackSize <s m_index s + sz)\<rparr> \<and>
            (\<forall>r. Free r s1 = Inl AssertionFailed \<longleftrightarrow> r \<noteq> q) \<and>
            (if b2_stackSize <s m_index s + sz
             then q = Heap (next_block (heap s)) \<and> m_index s1 = m_index s \<and>
                  live_blocks (heap s1) = (next_block (heap s), sz) # live_blocks (heap s)
             else q = Arena (m_index s) \<and> m_index s1 = m_index s + sz \<and> heap s1 = heap s)"
    using h k pos by (auto simp: Allocate_def Let_def b2Alloc_def Free_result)
next
  assume "- (2 ^ 31) \<le> sint (m_index s) + sint sz \<and> sint (m_index s) + sint sz < 2 ^ 31"
  then have "sint (m_index s + sz) = sint (m_index s) + sint sz"
    using sint_add_no_overflow by blast
  then show "b2_stackSize <s m_index s + sz \<longleftrightarrow> sint b2_stackSize - sint (m_index s) < sint sz"
    by (auto simp: word_sless_alt)
qed

text \<open>
  C8.  The last clause of the claim, "entries whose requested size does not fit in the
  remaining arena are served from the heap with the flag set", fails where the \<open>int32\<close>
  sum \<open>m_index + size\<close> wraps around.  On a fresh allocator, after \<open>Allocate(100)\<close> the arena
  has 102300 bytes left; \<open>Allocate(2147483647)\<close> then computes \<open>100 + 2147483647\<close>, which
  is negative in \<open>int32\<close>, so the test \<open>m_index + size > b2_stackSize\<close> fails: the entry is
  served from the arena at offset 100 with \<open>usedMalloc = false\<close>, nothing is taken from the
  system heap, and \<open>m_index\<close> becomes negative.  The comment above the test in \<open>Allocate\<close>
  says that a request which makes the used size exceed the capacity of the pool is served
  from the heap.
\<close>

theorem Allocate_wrapped_sum_stays_in_arena:
  "\<exists>s1 s2. Allocate 100 (b2StackAllocator_init \<lparr>live_blocks = [], next_block = 0\<rparr>) = Inr (Arena 0, s1) \<and>
     m_index s1 = 100 \<and> sint (b2_stackSize - m_index s1) = 102300 \<and>
     Allocate 2147483647 s1 = Inr (Arena 100, s2) \<and>
     m_entries s2 ! 1 = \<lparr>data = Arena 100, entry_size = 2147483647, usedMalloc = False\<rparr> \<and>
     live_blocks (heap s2) = [] \<and> sint (m_index s2) = - 2147483549"
  by (simp add: Allocate_def Let_def b2Alloc_def b2StackAllocator_init_def
        b2_stackSize_def b2_maxStackEntries_def b2Max_i32_def word_sless_alt word_sle_eq)



section \<open>The broad-phase query callback\<close>

text \<open>
  C1.  On a pair buffer as long as its capacity, of capacity at least 2 (the constructor
  makes it 16 and it only grows), \<open>QueryCallback proxyId\<close> returns \<open>true\<close>.  It leaves the
  broad phase unchanged when \<open>proxyId\<close> is the query proxy, and when the tree reports
  \<open>proxyId\<close> as moved and \<open>proxyId\<close> is larger than the query proxy.  Otherwise it appends
  the pair (smaller id, larger id) to the pairs recorded so far and changes nothing but
  the pair buffer, its count and its capacity; a full buffer grows from capacity \<open>c\<close> to
  \<open>c + (c >> 1)\<close>, that is 1.5 times \<open>c\<close> rounded down.
\<close>

theorem QueryCallback_cases:
  assumes "length (m_pairBuffer bp) = nat (m_pairCapacity bp)"
    and "0 \<le> m_pairCount bp" and "m_pairCount bp \<le> m_pairCapacity bp"
    and "2 \<le> m_pairCapacity bp"
  shows "\<exists>bp'. QueryCallback proxyId bp = (True, bp') \<and>
    (if proxyId = m_queryProxyId bp \<or> (WasMoved (m_tree bp) proxyId \<and> m_queryProxyId bp < proxyId)
     then bp' = bp
     else m_pairCount bp' = m_pairCount bp + 1
        \<and> take (nat (m_pairCount bp')) (m_pairBuffer bp')
            = take (nat (m_pairCount bp)) (m_pairBuffer bp)
              @ [\<lparr>proxyIdA = min proxyId (m_queryProxyId bp), proxyIdB = max proxyId (m_queryProxyId bp)\<rparr>]
        \<and> m_pairCapacity bp' = (if m_pairCount bp = m_pairCapacity bp
                                 then (3 * m_pairCapacity bp) div 2 else m_pairCapacity bp)
        \<and> length (m_pairBuffer bp') = nat (m_pairCapacity bp')
        \<and> bp'\<lparr>m_pairBuffer := m_pairBuffer bp, m_pairCount := m_pairCount bp,
               m_pairCapacity := m_pairCapacity bp\<rparr> = bp)"
proof (cases "proxyId = m_queryProxyId bp \<or> (WasMoved (m_tree bp) proxyId \<and> m_queryProxyId bp < proxyId)")
  case True
  then show ?thesis by (auto simp: QueryCallback_def)
next
  case False
  show ?thesis
  proof (cases "m_pairCount bp = m_pairCapacity bp")
    case full: True
    have n: "nat (m_pairCapacity bp + m_pairCapacity bp div 2) - nat (m_pairCapacity bp) = Suc (nat (m_pairCapacity bp div 2) - 1)" 
      using assms by simp
    show ?thesis using False assms full 
      apply (simp add: QueryCallback_def Let_def array_set_def drop_bit_eq_div nat_add_distrib take_Suc_conv_app_nth nth_append)
      apply (intro conjI impI)
      apply (auto)
      done
  next
    case notfull: False
    then show ?thesis using False assms 
      by (auto simp add: QueryCallback_def Let_def array_set_def nat_add_distrib take_Suc_conv_app_nth)
  qed
qed

theorem QueryCallback_cases_witness:
  "length (m_pairBuffer (b2BroadPhase_init\<lparr>m_queryProxyId := 5\<rparr>)) = nat 16 \<and>
   (\<exists>bp'. QueryCallback 3 (b2BroadPhase_init\<lparr>m_queryProxyId := 5\<rparr>) = (True, bp') \<and>
      m_pairCount bp' = 1 \<and> take 1 (m_pairBuffer bp') = [\<lparr>proxyIdA = 3, proxyIdB = 5\<rparr>]) \<and>
   QueryCallback 5 (b2BroadPhase_init\<lparr>m_queryProxyId := 5\<rparr>)
     = (True, b2BroadPhase_init\<lparr>m_queryProxyId := 5\<rparr>)"
  using QueryCallback_cases[of "b2BroadPhase_init\<lparr>m_queryProxyId := 5\<rparr>" 3]
    QueryCallback_cases[of "b2BroadPhase_init\<lparr>m_queryProxyId := 5\<rparr>" 5]
  by (auto simp add: b2BroadPhase_init_def)

section \<open>The node pool\<close>

lemma length_upd [simp]: "length (upd i f ns) = length ns"
  by (simp add: upd_def)

lemma nodeAt_upd:
  "nodeAt (upd i f ns) j =
     (if i = j \<and> 0 \<le> i \<and> i < int (length ns) then f (nodeAt ns j) else nodeAt ns j)"
  by (auto simp: upd_def nodeAt_def nth_list_update)

lemma nd_wr:
  "nd (wr i f t) j =
     (if i = j \<and> 0 \<le> i \<and> i < int (length (m_nodes t)) then f (nd t j) else nd t j)"
  by (simp add: nd_def wr_def nodeAt_upd)

lemma wr_fields [simp]:
  "m_root (wr i f t) = m_root t" "m_nodeCount (wr i f t) = m_nodeCount t"
  "m_nodeCapacity (wr i f t) = m_nodeCapacity t" "m_freeList (wr i f t) = m_freeList t"
  "m_insertionCount (wr i f t) = m_insertionCount t"
  "length (m_nodes (wr i f t)) = length (m_nodes t)"
  by (simp_all add: wr_def)

lemma nd_fields [simp]:
  "nd (t\<lparr>m_freeList := a\<rparr>) j = nd t j" "nd (t\<lparr>m_nodeCount := b\<rparr>) j = nd t j"
  "nd (t\<lparr>m_root := c\<rparr>) j = nd t j" "nd (t\<lparr>m_insertionCount := d\<rparr>) j = nd t j"
  by (simp_all add: nd_def)

lemma length_link_free [simp]: "length (link_free i hi ns) = length ns"
  by (induction i hi ns rule: link_free.induct) (subst link_free.simps, simp)

lemma nodeAt_link_free:
  "0 \<le> lo \<Longrightarrow> hi \<le> int (length ns) \<Longrightarrow>
   nodeAt (link_free lo hi ns) j =
     (if lo \<le> j \<and> j < hi then (nodeAt ns j)\<lparr>parent := j + 1, height := - 1\<rparr> else nodeAt ns j)"
proof (induction lo hi ns rule: link_free.induct)
  case (1 i hi ns)
  show ?case
  proof (cases "i < hi")
    case True
    then show ?thesis using 1 by (subst link_free.simps) (auto simp: nodeAt_upd)
  next
    case False
    then show ?thesis by (subst link_free.simps) auto
  qed
qed

lemma is_chain_cong:
  "is_chain ns i fl \<Longrightarrow> length ns \<le> length ns' \<Longrightarrow> (\<And>j. j \<in> set fl \<Longrightarrow> nodeAt ns' j = nodeAt ns j)
   \<Longrightarrow> is_chain ns' i fl"
  by (induction fl arbitrary: i) auto

lemma is_chain_fresh:
  "0 \<le> lo \<Longrightarrow> lo \<le> hi \<Longrightarrow> hi < int (length ns) \<Longrightarrow>
   (\<And>j. lo \<le> j \<Longrightarrow> j < hi \<Longrightarrow> parent (nodeAt ns j) = j + 1 \<and> height (nodeAt ns j) = - 1) \<Longrightarrow>
   parent (nodeAt ns hi) = b2_nullNode \<Longrightarrow> height (nodeAt ns hi) = - 1 \<Longrightarrow>
   is_chain ns lo [lo..hi]"
proof (induction "nat (hi - lo)" arbitrary: lo)
  case 0
  then have "lo = hi" by simp
  then show ?case using 0 by simp
next
  case (Suc n)
  then have lt: "lo < hi" by linarith
  have "is_chain ns (lo + 1) [lo + 1..hi]"
    using Suc lt by (intro Suc(1)) auto
  then show ?case using Suc(3-) lt by (simp add: upto_rec1)
qed


lemma fresh_tail:
  assumes "0 \<le> lo" "lo < n" "int (length ns) = n"
  defines "ns' \<equiv> upd (n - 1) (\<lambda>n. n\<lparr>height := - 1\<rparr>)
                    (upd (n - 1) (\<lambda>n. n\<lparr>parent := b2_nullNode\<rparr>) (link_free lo (n - 1) ns))"
  shows "length ns' = length ns"
    and "\<And>j. j < lo \<Longrightarrow> nodeAt ns' j = nodeAt ns j"
    and "\<And>j. lo \<le> j \<Longrightarrow> j < n \<Longrightarrow> height (nodeAt ns' j) = - 1"
    and "is_chain ns' lo [lo..n - 1]"
proof -
  have r: "0 \<le> n - 1" "n - 1 < n" "n - 1 \<le> int (length ns)" using assms(1-3) by auto
  have A: "nodeAt ns' j =
      (if j = n - 1 then (nodeAt ns j)\<lparr>parent := b2_nullNode, height := - 1\<rparr>
       else if lo \<le> j \<and> j < n - 1 then (nodeAt ns j)\<lparr>parent := j + 1, height := - 1\<rparr>
       else nodeAt ns j)" for j
    unfolding ns'_def using r assms(1,3) by (simp add: nodeAt_upd nodeAt_link_free)
  show len: "length ns' = length ns" by (simp add: ns'_def)
  show "\<And>j. j < lo \<Longrightarrow> nodeAt ns' j = nodeAt ns j"
    using assms(1-2) by (simp add: A)
  show h: "\<And>j. lo \<le> j \<Longrightarrow> j < n \<Longrightarrow> height (nodeAt ns' j) = - 1"
    by (simp add: A)
  have p: "\<And>j. lo \<le> j \<Longrightarrow> j < n - 1 \<Longrightarrow> parent (nodeAt ns' j) = j + 1"
    by (simp add: A)
  have q: "parent (nodeAt ns' (n - 1)) = b2_nullNode"
    by (simp add: A)
  have "is_chain ns' lo [lo..n - 1]"
  proof (rule is_chain_fresh)
    show "0 \<le> lo" by fact
    show "lo \<le> n - 1" using assms(2) by simp
    show "n - 1 < int (length ns')" using len assms(3) by simp
    show "parent (nodeAt ns' j) = j + 1 \<and> height (nodeAt ns' j) = - 1"
      if "lo \<le> j" "j < n - 1" for j using that p h by simp
    show "parent (nodeAt ns' (n - 1)) = b2_nullNode" by (rule q)
    show "height (nodeAt ns' (n - 1)) = - 1" using h[of "n - 1"] assms(2) by simp
  qed
  then show "is_chain ns' lo [lo..n - 1]" .
qed

lemma pool_inv_init: "pool_inv b2DynamicTree_init [0..15]"
proof -
  let ?ns = "replicate 16 b2_zeroNode"
  have l: "int (length ?ns) = 16" by simp
  note f = fresh_tail[of 0 16 ?ns, OF _ _ l, simplified]
  have ms: "m_nodes b2DynamicTree_init = upd 15 (\<lambda>n. n\<lparr>height := - 1\<rparr>)
                    (upd 15 (\<lambda>n. n\<lparr>parent := b2_nullNode\<rparr>) (link_free 0 15 ?ns))"
    by (simp add: b2DynamicTree_init_def)
  have oth: "m_nodeCapacity b2DynamicTree_init = 16" "m_freeList b2DynamicTree_init = 0"
     "m_nodeCount b2DynamicTree_init = 0"
    by (simp_all add: b2DynamicTree_init_def)
  have "set [0..15] = {i. 0 \<le> i \<and> i < 16 \<and> height (nd b2DynamicTree_init i) = - 1}"
    using f(3) unfolding nd_def ms by auto
  then show ?thesis
    unfolding pool_inv_def oth using f(1,4) unfolding ms by simp
qed

lemma pool_inv_grow:
  assumes "pool_inv t []"
  shows "pool_inv (grow_pool t) [m_nodeCapacity t..2 * m_nodeCapacity t - 1]"
    and "\<And>j. j < m_nodeCapacity t \<Longrightarrow> nd (grow_pool t) j = nd t j"
    and "m_root (grow_pool t) = m_root t" "m_nodeCount (grow_pool t) = m_nodeCount t"
    and "m_insertionCount (grow_pool t) = m_insertionCount t"
    and "m_nodeCapacity (grow_pool t) = 2 * m_nodeCapacity t"
proof -
  define c where "c = m_nodeCapacity t"
  have c: "int (length (m_nodes t)) = c" "0 < c" "m_nodeCount t = c"
    and nofree: "\<And>i. 0 \<le> i \<Longrightarrow> i < c \<Longrightarrow> height (nd t i) \<noteq> - 1"
    using assms by (auto simp: pool_inv_def c_def)
  define ns where "ns = take (nat (m_nodeCount t)) (m_nodes t) @ replicate (nat (c * 2) - nat (m_nodeCount t)) b2_zeroNode"
  have len: "int (length ns) = 2 * c" using c by (auto simp: ns_def)
  have old: "\<And>j. j < c \<Longrightarrow> nodeAt ns j = nodeAt (m_nodes t) j"
    using c by (auto simp: nodeAt_def nth_append ns_def)
  define ns' where "ns' = upd (2 * c - 1) (\<lambda>n. n\<lparr>height := - 1\<rparr>)
                    (upd (2 * c - 1) (\<lambda>n. n\<lparr>parent := b2_nullNode\<rparr>) (link_free c (2 * c - 1) ns))"
  have f1: "0 \<le> c" "c < 2 * c" using c by auto
  note g = fresh_tail[of c "2 * c" ns, OF f1 len, folded ns'_def]
  have ms: "grow_pool t = t\<lparr>m_nodeCapacity := 2 * c, m_nodes := ns', m_freeList := c\<rparr>"
    using c by (simp add: grow_pool_def Let_def mult.commute ns'_def ns_def c_def)
  show frame: "\<And>j. j < m_nodeCapacity t \<Longrightarrow> nd (grow_pool t) j = nd t j"
    using g(2) old by (simp add: nd_def ms c_def)
  show "m_root (grow_pool t) = m_root t" "m_nodeCount (grow_pool t) = m_nodeCount t"
    "m_insertionCount (grow_pool t) = m_insertionCount t" "m_nodeCapacity (grow_pool t) = 2 * m_nodeCapacity t"
    by (simp_all add: ms c_def)
  have "set [c..2 * c - 1] = {i. 0 \<le> i \<and> i < 2 * c \<and> height (nodeAt ns' i) = - 1}"
  proof (intro set_eqI iffI)
    fix i assume "i \<in> set [c..2 * c - 1]"
    then show "i \<in> {i. 0 \<le> i \<and> i < 2 * c \<and> height (nodeAt ns' i) = - 1}"
      using g(3)[of i] c by auto
  next
    fix i assume a: "i \<in> {i. 0 \<le> i \<and> i < 2 * c \<and> height (nodeAt ns' i) = - 1}"
    have "\<not> i < c"
    proof
      assume "i < c"
      then have "nodeAt ns' i = nd t i" using g(2)[of i] old[of i] by (simp add: nd_def)
      then show False using nofree[of i] a \<open>i < c\<close> by simp
    qed
    then show "i \<in> set [c..2 * c - 1]" using a by auto
  qed
  then have "pool_inv (t\<lparr>m_nodeCapacity := 2 * c, m_nodes := ns', m_freeList := c\<rparr>) [c..2 * c - 1]"
    using g(1,4) c len by (simp add: pool_inv_def nd_def)
  then show "pool_inv (grow_pool t) [m_nodeCapacity t..2 * m_nodeCapacity t - 1]"
    by (simp add: ms c_def)
qed


lemma pool_inv_peel:
  assumes "pool_inv t (h # fl)"
  shows "fst (peel_node t) = h"
    and "pool_inv (snd (peel_node t)) fl"
    and "\<And>j. j \<noteq> h \<Longrightarrow> nd (snd (peel_node t)) j = nd t j"
    and "nd (snd (peel_node t)) h = (nd t h)\<lparr>parent := b2_nullNode, child1 := b2_nullNode,
            child2 := b2_nullNode, height := 0, userData := 0, moved := False\<rparr>"
    and "m_root (snd (peel_node t)) = m_root t"
    and "m_nodeCount (snd (peel_node t)) = m_nodeCount t + 1"
    and "m_insertionCount (snd (peel_node t)) = m_insertionCount t"
    and "m_nodeCapacity (snd (peel_node t)) = m_nodeCapacity t"
proof -
  define t' where "t' = snd (peel_node t)"
  have a: "int (length (m_nodes t)) = m_nodeCapacity t" "m_freeList t = h" "0 \<le> h"
    "h < m_nodeCapacity t" "is_chain (m_nodes t) (parent (nd t h)) fl" "h \<notin> set fl" "distinct fl"
    "set (h # fl) = {i. 0 \<le> i \<and> i < m_nodeCapacity t \<and> height (nd t i) = - 1}"
    "int (length (h # fl)) + m_nodeCount t = m_nodeCapacity t" "0 < m_nodeCapacity t"
    using assms by (auto simp: pool_inv_def nd_def[symmetric])
  show "fst (peel_node t) = h" using a by (simp add: peel_node_def Let_def)
  have fr: "nd t' j = nd t j" if "j \<noteq> h" for j
    using that a by (simp add: t'_def peel_node_def Let_def nd_wr)
  have nh: "nd t' h = (nd t h)\<lparr>parent := b2_nullNode, child1 := b2_nullNode,
            child2 := b2_nullNode, height := 0, userData := 0, moved := False\<rparr>"
    using a by (simp add: t'_def peel_node_def Let_def nd_wr)
  have fl: "m_freeList t' = parent (nd t h)" "m_nodeCapacity t' = m_nodeCapacity t"
    "m_nodeCount t' = m_nodeCount t + 1" "length (m_nodes t') = length (m_nodes t)"
    "m_root t' = m_root t" "m_insertionCount t' = m_insertionCount t"
    using a by (simp_all add: t'_def peel_node_def Let_def)
  have ch: "is_chain (m_nodes t') (m_freeList t') fl"
    unfolding fl(1)
  proof (rule is_chain_cong[OF a(5)])
    show "length (m_nodes t) \<le> length (m_nodes t')" using fl by simp
    show "nodeAt (m_nodes t') j = nodeAt (m_nodes t) j" if "j \<in> set fl" for j
      using fr[of j] that a(6) by (auto simp: nd_def)
  qed
  have st: "set fl = {i. 0 \<le> i \<and> i < m_nodeCapacity t' \<and> height (nd t' i) = - 1}"
  proof (intro set_eqI iffI)
    fix i assume i: "i \<in> set fl"
    then have "i \<noteq> h" using a(6) by auto
    moreover have "i \<in> {i. 0 \<le> i \<and> i < m_nodeCapacity t \<and> height (nd t i) = - 1}"
      using i a(8) by auto
    ultimately show "i \<in> {i. 0 \<le> i \<and> i < m_nodeCapacity t' \<and> height (nd t' i) = - 1}"
      using fr[of i] fl by simp
  next
    fix i assume i: "i \<in> {i. 0 \<le> i \<and> i < m_nodeCapacity t' \<and> height (nd t' i) = - 1}"
    then have "i \<noteq> h" using nh by auto
    then have "i \<in> {i. 0 \<le> i \<and> i < m_nodeCapacity t \<and> height (nd t i) = - 1}"
      using i fr[of i] fl by simp
    then show "i \<in> set fl" using a(8) \<open>i \<noteq> h\<close> by auto
  qed
  show "pool_inv (snd (peel_node t)) fl"
    unfolding t'_def[symmetric] pool_inv_def using ch st a fl by simp
  show "\<And>j. j \<noteq> h \<Longrightarrow> nd (snd (peel_node t)) j = nd t j" using fr by (simp add: t'_def)
  show "nd (snd (peel_node t)) h = (nd t h)\<lparr>parent := b2_nullNode, child1 := b2_nullNode,
            child2 := b2_nullNode, height := 0, userData := 0, moved := False\<rparr>"
    using nh by (simp add: t'_def)
  show "m_root (snd (peel_node t)) = m_root t" "m_nodeCount (snd (peel_node t)) = m_nodeCount t + 1"
    "m_insertionCount (snd (peel_node t)) = m_insertionCount t"
    "m_nodeCapacity (snd (peel_node t)) = m_nodeCapacity t"
    using fl by (simp_all add: t'_def)
qed

lemma pool_inv_FreeNode:
  assumes "pool_inv t fl" "height (nd t i) \<noteq> - 1" "0 \<le> i" "i < m_nodeCapacity t" "0 < m_nodeCount t"
  shows "\<exists>t'. FreeNode i t = Some t' \<and> pool_inv t' (i # fl) \<and>
           (\<forall>j. j \<noteq> i \<longrightarrow> nd t' j = nd t j) \<and>
           nd t' i = (nd t i)\<lparr>parent := m_freeList t, height := - 1\<rparr> \<and>
           m_root t' = m_root t \<and> m_nodeCount t' = m_nodeCount t - 1 \<and>
           m_insertionCount t' = m_insertionCount t \<and> m_nodeCapacity t' = m_nodeCapacity t"
proof -
  define t' where "t' = (wr i (\<lambda>n. n\<lparr>height := - 1\<rparr>) (wr i (\<lambda>n. n\<lparr>parent := m_freeList t\<rparr>) t))
       \<lparr>m_freeList := i, m_nodeCount := m_nodeCount t - 1\<rparr>"
  have a: "int (length (m_nodes t)) = m_nodeCapacity t"
    "is_chain (m_nodes t) (m_freeList t) fl" "distinct fl"
    "set fl = {i. 0 \<le> i \<and> i < m_nodeCapacity t \<and> height (nd t i) = - 1}"
    "int (length fl) + m_nodeCount t = m_nodeCapacity t" "0 < m_nodeCapacity t"
    using assms(1) by (auto simp: pool_inv_def)
  have F: "FreeNode i t = Some t'"
    using assms by (simp add: FreeNode_def Let_def t'_def)
  have inotin: "i \<notin> set fl" using a(4) assms(2) by auto
  have fr: "nd t' j = nd t j" if "j \<noteq> i" for j
    using that by (simp add: t'_def nd_wr)
  have ni: "nd t' i = (nd t i)\<lparr>parent := m_freeList t, height := - 1\<rparr>"
    using assms(3,4) a(1) by (simp add: t'_def nd_wr)
  have fl: "m_freeList t' = i" "m_nodeCapacity t' = m_nodeCapacity t"
    "m_nodeCount t' = m_nodeCount t - 1" "length (m_nodes t') = length (m_nodes t)"
    "m_root t' = m_root t" "m_insertionCount t' = m_insertionCount t"
    by (simp_all add: t'_def wr_def)
  have "is_chain (m_nodes t') (m_freeList t) fl"
  proof (rule is_chain_cong[OF a(2)])
    show "length (m_nodes t) \<le> length (m_nodes t')" using fl by simp
    show "nodeAt (m_nodes t') j = nodeAt (m_nodes t) j" if "j \<in> set fl" for j
      using fr[of j] that inotin by (auto simp: nd_def)
  qed
  then have ch: "is_chain (m_nodes t') (m_freeList t') (i # fl)"
    using ni assms(3,4) a(1) fl by (simp add: nd_def)
  have st: "set (i # fl) = {j. 0 \<le> j \<and> j < m_nodeCapacity t' \<and> height (nd t' j) = - 1}"
  proof (intro set_eqI iffI)
    fix j assume j: "j \<in> set (i # fl)"
    show "j \<in> {j. 0 \<le> j \<and> j < m_nodeCapacity t' \<and> height (nd t' j) = - 1}"
    proof (cases "j = i")
      case True then show ?thesis using ni assms(3,4) fl by simp
    next
      case False
      then have "j \<in> set fl" using j by simp
      then show ?thesis using a(4) fr[OF False] fl by auto
    qed
  next
    fix j assume j: "j \<in> {j. 0 \<le> j \<and> j < m_nodeCapacity t' \<and> height (nd t' j) = - 1}"
    show "j \<in> set (i # fl)"
    proof (cases "j = i")
      case True then show ?thesis by simp
    next
      case False
      then show ?thesis using a(4) fr[OF False] fl j by auto
    qed
  qed
  have "pool_inv t' (i # fl)"
    unfolding pool_inv_def using ch st a fl inotin by simp
  then show ?thesis using F fr ni fl by blast
qed


lemma pool_inv_AllocateNode:
  assumes "pool_inv t fl"
  shows "\<exists>i t' fl'. AllocateNode t = Some (i, t') \<and> pool_inv t' fl' \<and>
           0 \<le> i \<and> i < m_nodeCapacity t' \<and> (i < m_nodeCapacity t \<longrightarrow> height (nd t i) = - 1) \<and>
           (\<forall>j. j \<noteq> i \<and> j < m_nodeCapacity t \<longrightarrow> nd t' j = nd t j) \<and>
           parent (nd t' i) = b2_nullNode \<and> child1 (nd t' i) = b2_nullNode \<and>
           child2 (nd t' i) = b2_nullNode \<and> height (nd t' i) = 0 \<and> userData (nd t' i) = 0 \<and>
           \<not> moved (nd t' i) \<and>
           m_root t' = m_root t \<and> m_nodeCount t' = m_nodeCount t + 1 \<and>
           m_insertionCount t' = m_insertionCount t \<and> m_nodeCapacity t \<le> m_nodeCapacity t'"
proof (cases fl)
  case Nil
  then have e: "pool_inv t []" using assms by simp
  then have c: "m_freeList t = b2_nullNode" "m_nodeCount t = m_nodeCapacity t" "0 < m_nodeCapacity t"
    by (auto simp: pool_inv_def)
  define c where "c = m_nodeCapacity t"
  note g = pool_inv_grow[OF e, folded c_def]
  have cpos: "0 < c" using c by (simp add: c_def)
  then have "[c..2 * c - 1] = c # [c + 1..2 * c - 1]" by (simp add: upto_rec1)
  then have "pool_inv (grow_pool t) (c # [c + 1..2 * c - 1])" using g(1) by simp
  note p = pool_inv_peel[OF this]
  have A: "AllocateNode t = Some (c, snd (peel_node (grow_pool t)))"
    using c p(1) by (simp add: AllocateNode_def prod_eq_iff)
  show ?thesis
    apply (rule exI[of _ c], rule exI[of _ "snd (peel_node (grow_pool t))"], rule exI[of _ "[c + 1..2 * c - 1]"])
    using A p g cpos by (simp add: c_def)
next
  case (Cons h fl')
  then have e: "pool_inv t (h # fl')" using assms by simp
  then have c: "m_freeList t = h" "0 \<le> h" "h < m_nodeCapacity t" "height (nd t h) = - 1"
    by (auto simp: pool_inv_def nd_def)
  then have "m_freeList t \<noteq> b2_nullNode" by (simp add: b2_nullNode_def)
  note p = pool_inv_peel[OF e]
  have A: "AllocateNode t = Some (h, snd (peel_node t))"
    using \<open>m_freeList t \<noteq> b2_nullNode\<close> p(1) by (simp add: AllocateNode_def prod_eq_iff)
  show ?thesis
    apply (rule exI[of _ h], rule exI[of _ "snd (peel_node t)"], rule exI[of _ fl'])
    using A p c by simp
qed

lemma Validate_freeCount_chain:
  "is_chain (m_nodes t) i fl \<Longrightarrow> int (length (m_nodes t)) = m_nodeCapacity t \<Longrightarrow>
   Validate_freeCount t i k = Some (k + int (length fl))"
proof (induction fl arbitrary: i k)
  case Nil
  then show ?case by (subst Validate_freeCount.simps) simp
next
  case (Cons j js)
  then have "i = j" "0 \<le> j" "j < m_nodeCapacity t" "is_chain (m_nodes t) (parent (nd t j)) js"
    by (auto simp: nd_def)
  then show ?case using Cons.IH[of "parent (nd t j)" "k + 1"] Cons.prems(2)
    by (subst Validate_freeCount.simps) (simp add: b2_nullNode_def)
qed

lemma pool_reachable_inv: "pool_reachable t \<Longrightarrow> \<exists>fl. pool_inv t fl"
proof (induction rule: pool_reachable.induct)
  case pool_init
  then show ?case using pool_inv_init by blast
next
  case (pool_alloc t i t')
  then obtain fl where "pool_inv t fl" by blast
  from pool_inv_AllocateNode[OF this] pool_alloc(2) show ?case by auto
next
  case (pool_free t i t')
  then obtain fl where fl: "pool_inv t fl" by blast
  have r: "0 \<le> i" "i < m_nodeCapacity t" "0 < m_nodeCount t"
    using pool_free(3) by (auto simp: FreeNode_def split: if_splits)
  from pool_inv_FreeNode[OF fl pool_free(2) r] pool_free(3) show ?case by auto
qed

text \<open>
  C7, as amended.  In every state of the node pool reached from the constructor by calls
  of \<open>AllocateNode\<close> and \<open>FreeNode\<close> in which every \<open>FreeNode\<close> is applied to an allocated
  slot, the free list is a chain of distinct slots of height \<open>-1\<close> linked through \<open>next\<close>,
  the counting loop of \<open>Validate\<close> returns its length, and that length plus \<open>m_nodeCount\<close>
  is \<open>m_nodeCapacity\<close>.
\<close>

theorem free_list_plus_live_is_capacity:
  assumes "pool_reachable t"
  shows "\<exists>fl. is_chain (m_nodes t) (m_freeList t) fl \<and> distinct fl \<and>
           Validate_freeCount t (m_freeList t) 0 = Some (int (length fl)) \<and>
           int (length fl) + m_nodeCount t = m_nodeCapacity t"
proof -
  obtain fl where fl: "pool_inv t fl" using pool_reachable_inv[OF assms] by blast
  then have "Validate_freeCount t (m_freeList t) 0 = Some (0 + int (length fl))"
    by (intro Validate_freeCount_chain) (auto simp: pool_inv_def)
  then show ?thesis using fl by (auto simp: pool_inv_def)
qed

theorem free_list_plus_live_is_capacity_witness:
  "\<exists>i j t1 t2 t3. AllocateNode b2DynamicTree_init = Some (i, t1) \<and> AllocateNode t1 = Some (j, t2) \<and>
     height (nd t2 i) \<noteq> - 1 \<and> FreeNode i t2 = Some t3 \<and> pool_reachable t3 \<and>
     (\<exists>fl. is_chain (m_nodes t3) (m_freeList t3) fl \<and> distinct fl \<and>
           Validate_freeCount t3 (m_freeList t3) 0 = Some (int (length fl)) \<and>
           int (length fl) + m_nodeCount t3 = m_nodeCapacity t3)"
proof -
  obtain i t1 fl1 where 1: "AllocateNode b2DynamicTree_init = Some (i, t1)" "pool_inv t1 fl1"
    "height (nd t1 i) = 0" "0 \<le> i" "i < m_nodeCapacity t1" "m_nodeCount t1 = m_nodeCount b2DynamicTree_init + 1"
    using pool_inv_AllocateNode[OF pool_inv_init] by blast
  obtain j t2 fl2 where 2: "AllocateNode t1 = Some (j, t2)" "pool_inv t2 fl2"
    "j < m_nodeCapacity t1 \<longrightarrow> height (nd t1 j) = - 1" "height (nd t2 j) = 0"
    "\<forall>k. k \<noteq> j \<and> k < m_nodeCapacity t1 \<longrightarrow> nd t2 k = nd t1 k" "m_nodeCount t2 = m_nodeCount t1 + 1"
    "m_nodeCapacity t1 \<le> m_nodeCapacity t2"
    using pool_inv_AllocateNode[OF 1(2)] by blast
  have h: "height (nd t2 i) \<noteq> - 1"
    using 1(3,5) 2(3,4,5) by (cases "i = j") auto
  have "0 < m_nodeCount t2" using 1(6) 2(6) by (simp add: b2DynamicTree_init_def)
  then obtain t3 where 3: "FreeNode i t2 = Some t3"
    using pool_inv_FreeNode[OF 2(2) h 1(4)] 1(5) 2(7) by fastforce
  have r: "pool_reachable t3"
    using pool_free[OF pool_alloc[OF pool_alloc[OF pool_init 1(1)] 2(1)] h 3] .
  show ?thesis using 1(1) 2(1) h 3 r free_list_plus_live_is_capacity[OF r] by blast
qed

text \<open>
  C7 as stated, for any sequence of calls, fails: \<open>FreeNode\<close> does not check that the slot
  is allocated.  After two allocations, two calls of \<open>FreeNode\<close> on slot 0 both return; the
  free list then starts at slot 0, whose \<open>next\<close> is slot 0 again, so the counting loop of
  \<open>Validate\<close> never ends, while \<open>m_nodeCount\<close> is 0 and \<open>m_nodeCapacity\<close> is 16.
\<close>

lemma Validate_freeCount_loop:
  assumes "parent (nd t i) = i" "i \<noteq> b2_nullNode"
  shows "Validate_freeCount t i k = None"
proof -
  have "\<not> (t' = t \<and> j = i)" if "Validate_freeCount t' j k' = Some y" for t' j k' y
  proof (rule Validate_freeCount.raw_induct[where P = "\<lambda>t' j k' y. \<not> (t' = t \<and> j = i)", OF _ that])
    fix V :: "b2DynamicTree \<Rightarrow> int \<Rightarrow> int \<Rightarrow> int option" and a b c r
    assume ih: "\<And>a b c r. V a b c = Some r \<Longrightarrow> \<not> (a = t \<and> b = i)"
      and st: "(if b \<noteq> b2_nullNode
         then if \<not> (0 \<le> b \<and> b < m_nodeCapacity a) then None
              else V a (parent (nd a b)) (c + 1)
         else Some c) = Some r"
    show "\<not> (a = t \<and> b = i)"
    proof
      assume e: "a = t \<and> b = i"
      then have "V t i (c + 1) = Some r"
        using st assms by (simp split: if_splits)
      then show False using ih by blast
    qed
  qed
  then show ?thesis by (cases "Validate_freeCount t i k") auto
qed

lemma double_free_run:
  "\<exists>t. run_pool [Call_AllocateNode, Call_AllocateNode, Call_FreeNode 0, Call_FreeNode 0]
            b2DynamicTree_init = Some t \<and>
       m_freeList t = 0 \<and> parent (nd t 0) = 0 \<and> m_nodeCount t = 0 \<and> m_nodeCapacity t = 16"
proof -
  have u: "[0..15] = 0 # 1 # [2..15]" by (simp add: upto_rec1)
  have p0: "pool_inv b2DynamicTree_init (0 # 1 # [2..15])" using pool_inv_init u by simp
  define t1 where "t1 = snd (peel_node b2DynamicTree_init)"
  note a = pool_inv_peel[OF p0, folded t1_def]
  have f0: "m_freeList b2DynamicTree_init \<noteq> b2_nullNode" "m_nodeCount b2DynamicTree_init = 0"
    "m_nodeCapacity b2DynamicTree_init = 16"
    by (simp_all add: b2DynamicTree_init_def b2_nullNode_def)
  have A1: "AllocateNode b2DynamicTree_init = Some (0, t1)"
    using f0 a(1) by (simp add: AllocateNode_def t1_def prod_eq_iff)
  define t2 where "t2 = snd (peel_node t1)"
  note b = pool_inv_peel[OF a(2), folded t2_def]
  have f1: "m_freeList t1 = 1" using a(2) by (simp add: pool_inv_def)
  have A2: "AllocateNode t1 = Some (1, t2)"
    using f1 b(1) by (simp add: AllocateNode_def t2_def prod_eq_iff b2_nullNode_def)
  have f2: "m_freeList t2 = 2" "m_nodeCount t2 = 2" "m_nodeCapacity t2 = 16"
    "int (length (m_nodes t2)) = 16"
    using b(2) b(6,8) a(6,8) f0 u by (simp_all add: pool_inv_def upto_rec1[of 2 15])
  define t3 where "t3 = (wr 0 (\<lambda>n. n\<lparr>height := - 1\<rparr>) (wr 0 (\<lambda>n. n\<lparr>parent := m_freeList t2\<rparr>) t2))
       \<lparr>m_freeList := 0, m_nodeCount := m_nodeCount t2 - 1\<rparr>"
  have F1: "FreeNode 0 t2 = Some t3" using f2 by (simp add: FreeNode_def Let_def t3_def)
  have f3: "m_freeList t3 = 0" "m_nodeCount t3 = 1" "m_nodeCapacity t3 = 16"
    "int (length (m_nodes t3)) = 16"
    using f2 by (simp_all add: t3_def)
  define t4 where "t4 = (wr 0 (\<lambda>n. n\<lparr>height := - 1\<rparr>) (wr 0 (\<lambda>n. n\<lparr>parent := m_freeList t3\<rparr>) t3))
       \<lparr>m_freeList := 0, m_nodeCount := m_nodeCount t3 - 1\<rparr>"
  have F2: "FreeNode 0 t3 = Some t4" using f3 by (simp add: FreeNode_def Let_def t4_def)
  have f4: "m_freeList t4 = 0" "m_nodeCount t4 = 0" "m_nodeCapacity t4 = 16"
    using f3 by (simp_all add: t4_def)
  have p4: "parent (nd t4 0) = 0"
    using f3 by (simp add: t4_def nd_wr)
  show ?thesis using A1 A2 F1 F2 f4 p4 by simp
qed

theorem double_free_breaks_count:
  "run_pool [Call_AllocateNode, Call_AllocateNode, Call_FreeNode 0, Call_FreeNode 0]
       b2DynamicTree_init = Some double_free_pool \<and>
   m_freeList double_free_pool = 0 \<and> parent (nd double_free_pool 0) = 0 \<and>
   Validate_freeCount double_free_pool (m_freeList double_free_pool) 0 = None \<and>
   m_nodeCount double_free_pool = 0 \<and> m_nodeCapacity double_free_pool = 16"
proof -
  obtain t where t: "run_pool [Call_AllocateNode, Call_AllocateNode, Call_FreeNode 0, Call_FreeNode 0]
            b2DynamicTree_init = Some t"
       "m_freeList t = 0" "parent (nd t 0) = 0" "m_nodeCount t = 0" "m_nodeCapacity t = 16"
    using double_free_run by blast
  have d: "double_free_pool = t" using t(1) by (simp add: double_free_pool_def)
  have "Validate_freeCount t 0 0 = None"
    by (rule Validate_freeCount_loop[OF t(3)]) (simp add: b2_nullNode_def)
  then show ?thesis using t d by simp
qed

section \<open>Moving a proxy without touching the tree\<close>

text \<open>
  C2.  For a leaf \<open>proxyId\<close> inside the arena, \<open>MoveProxy\<close> returns \<open>false\<close> exactly when
  the stored fat AABB contains the new AABB and the newly computed fat AABB, inflated by
  four times \<open>b2_aabbExtension\<close> on all sides, contains the stored fat AABB; the tree it
  returns is then the tree it was given.  In particular, when the stored AABB is the new
  AABB inflated by a non-negative \<open>b2_aabbExtension\<close>, as \<open>CreateProxy\<close> stores it, a move
  to that same AABB with displacement zero returns \<open>false\<close> and the same tree.
\<close>

theorem MoveProxy_false_iff:
  assumes "0 \<le> proxyId" "proxyId < m_nodeCapacity t" "IsLeaf (nd t proxyId)"
  shows "((\<exists>t'. MoveProxy ext mult proxyId box d t = Some (False, t')) \<longleftrightarrow>
            Contains (aabb (nd t proxyId)) box \<and>
            Contains \<lparr>lowerBound = \<lparr>vx = vx (lowerBound (MoveProxy_fatAABB ext mult box d)) - 4 * ext,
                                    vy = vy (lowerBound (MoveProxy_fatAABB ext mult box d)) - 4 * ext\<rparr>,
                      upperBound = \<lparr>vx = vx (upperBound (MoveProxy_fatAABB ext mult box d)) + 4 * ext,
                                    vy = vy (upperBound (MoveProxy_fatAABB ext mult box d)) + 4 * ext\<rparr>\<rparr>
                     (aabb (nd t proxyId)))
       \<and> (\<forall>t'. MoveProxy ext mult proxyId box d t = Some (False, t') \<longrightarrow> t' = t)
       \<and> (0 \<le> ext \<and> aabb (nd t proxyId) =
                    \<lparr>lowerBound = \<lparr>vx = vx (lowerBound box) - ext, vy = vy (lowerBound box) - ext\<rparr>,
                     upperBound = \<lparr>vx = vx (upperBound box) + ext, vy = vy (upperBound box) + ext\<rparr>\<rparr>
            \<longrightarrow> MoveProxy ext mult proxyId box \<lparr>vx = 0, vy = 0\<rparr> t = Some (False, t))"
proof -
  have split: "MoveProxy ext mult proxyId box d t = Some (False, t') \<longleftrightarrow>
      t' = t \<and> Contains (aabb (nd t proxyId)) box \<and>
            Contains \<lparr>lowerBound = vec_sub (lowerBound (MoveProxy_fatAABB ext mult box d)) (vec_scale 4 \<lparr>vx = ext, vy = ext\<rparr>),
                      upperBound = vec_add (upperBound (MoveProxy_fatAABB ext mult box d)) (vec_scale 4 \<lparr>vx = ext, vy = ext\<rparr>)\<rparr>
                     (aabb (nd t proxyId))" for t' d
    using assms
    by (auto simp: MoveProxy_def Let_def split: Option.bind_splits)
  show ?thesis
  proof (intro conjI allI impI)
    show "(\<exists>t'. MoveProxy ext mult proxyId box d t = Some (False, t')) \<longleftrightarrow>
            Contains (aabb (nd t proxyId)) box \<and>
            Contains \<lparr>lowerBound = \<lparr>vx = vx (lowerBound (MoveProxy_fatAABB ext mult box d)) - 4 * ext,
                                    vy = vy (lowerBound (MoveProxy_fatAABB ext mult box d)) - 4 * ext\<rparr>,
                      upperBound = \<lparr>vx = vx (upperBound (MoveProxy_fatAABB ext mult box d)) + 4 * ext,
                                    vy = vy (upperBound (MoveProxy_fatAABB ext mult box d)) + 4 * ext\<rparr>\<rparr>
                     (aabb (nd t proxyId))"
      by (simp add: split vec_sub_def vec_add_def vec_scale_def)
    show "t' = t" if "MoveProxy ext mult proxyId box d t = Some (False, t')" for t'
      using that by (simp add: split)
    show "MoveProxy ext mult proxyId box \<lparr>vx = 0, vy = 0\<rparr> t = Some (False, t)"
      if "0 \<le> ext \<and> aabb (nd t proxyId) =
                    \<lparr>lowerBound = \<lparr>vx = vx (lowerBound box) - ext, vy = vy (lowerBound box) - ext\<rparr>,
                     upperBound = \<lparr>vx = vx (upperBound box) + ext, vy = vy (upperBound box) + ext\<rparr>\<rparr>"
      using that
      by (simp add: split Contains_def MoveProxy_fatAABB_def Let_def vec_sub_def vec_add_def vec_scale_def)
  qed
qed

lemma CreateProxy_on_empty:
  assumes "pool_inv t fl" "m_root t = b2_nullNode"
  shows "\<exists>i t'. CreateProxy ext box ud t = Some (i, t') \<and> 0 \<le> i \<and> i < m_nodeCapacity t' \<and>
           IsLeaf (nd t' i) \<and> m_root t' = i \<and>
           aabb (nd t' i) =
             \<lparr>lowerBound = \<lparr>vx = vx (lowerBound box) - ext, vy = vy (lowerBound box) - ext\<rparr>,
              upperBound = \<lparr>vx = vx (upperBound box) + ext, vy = vy (upperBound box) + ext\<rparr>\<rparr>"
proof -
  obtain i t1 fl1 where a: "AllocateNode t = Some (i, t1)" "pool_inv t1 fl1" "0 \<le> i"
    "i < m_nodeCapacity t1" "child1 (nd t1 i) = b2_nullNode" "m_root t1 = m_root t"
    using pool_inv_AllocateNode[OF assms(1)] by blast
  have l: "i < int (length (m_nodes t1))" using a(2,4) by (simp add: pool_inv_def)
  show ?thesis
    using a l assms(2)
    by (simp add: CreateProxy_def InsertLeaf_def Let_def nd_wr IsLeaf_def vec_sub_def vec_add_def)
qed

theorem MoveProxy_false_iff_witness:
  "\<exists>i t. CreateProxy (1/10) \<lparr>lowerBound = \<lparr>vx = 0, vy = 0\<rparr>, upperBound = \<lparr>vx = 1, vy = 1\<rparr>\<rparr> 7
             b2DynamicTree_init = Some (i, t) \<and>
     0 \<le> i \<and> i < m_nodeCapacity t \<and> IsLeaf (nd t i) \<and>
     MoveProxy (1/10) 4 i \<lparr>lowerBound = \<lparr>vx = 0, vy = 0\<rparr>, upperBound = \<lparr>vx = 1, vy = 1\<rparr>\<rparr>
        \<lparr>vx = 0, vy = 0\<rparr> t = Some (False, t) \<and>
     (\<forall>t'. MoveProxy (1/10) 4 i \<lparr>lowerBound = \<lparr>vx = 5, vy = 5\<rparr>, upperBound = \<lparr>vx = 6, vy = 6\<rparr>\<rparr>
        \<lparr>vx = 5, vy = 5\<rparr> t \<noteq> Some (False, t'))"
proof -
  let ?box = "\<lparr>lowerBound = \<lparr>vx = 0, vy = 0\<rparr>, upperBound = \<lparr>vx = 1, vy = 1\<rparr>\<rparr>"
  have r: "m_root b2DynamicTree_init = b2_nullNode" by (simp add: b2DynamicTree_init_def)
  obtain i t where c: "CreateProxy (1/10) ?box 7 b2DynamicTree_init = Some (i, t)" "0 \<le> i"
    "i < m_nodeCapacity t" "IsLeaf (nd t i)"
    "aabb (nd t i) = \<lparr>lowerBound = \<lparr>vx = vx (lowerBound ?box) - 1/10, vy = vy (lowerBound ?box) - 1/10\<rparr>,
              upperBound = \<lparr>vx = vx (upperBound ?box) + 1/10, vy = vy (upperBound ?box) + 1/10\<rparr>\<rparr>"
    using CreateProxy_on_empty[OF pool_inv_init r, of "1/10" ?box 7] by blast
  note m = MoveProxy_false_iff[OF c(2,3,4), of "1/10" 4]
  have 1: "MoveProxy (1/10) 4 i ?box \<lparr>vx = 0, vy = 0\<rparr> t = Some (False, t)"
    using m[of ?box] c(5) by simp
  have 2: "MoveProxy (1/10) 4 i \<lparr>lowerBound = \<lparr>vx = 5, vy = 5\<rparr>, upperBound = \<lparr>vx = 6, vy = 6\<rparr>\<rparr>
        \<lparr>vx = 5, vy = 5\<rparr> t \<noteq> Some (False, t')" for t'
    using m[of "\<lparr>lowerBound = \<lparr>vx = 5, vy = 5\<rparr>, upperBound = \<lparr>vx = 6, vy = 6\<rparr>\<rparr>" "\<lparr>vx = 5, vy = 5\<rparr>"] c(5)
    by (auto simp: Contains_def)
  show ?thesis using c 1 2 by blast
qed

section \<open>The height of the empty tree\<close>

text \<open>
  C6.  On the tree the constructor builds, \<open>m_root\<close> is \<open>b2_nullNode\<close>: \<open>GetHeight\<close>
  returns 0, while \<open>ComputeHeight()\<close> calls \<open>ComputeHeight(m_root)\<close>, whose assertion
  \<open>0 <= nodeId\<close> fails, so that it returns no value.
\<close>

theorem ComputeHeight_empty_tree:
  "m_root b2DynamicTree_init = b2_nullNode \<and> GetHeight b2DynamicTree_init = 0 \<and>
   \<not> (0 \<le> m_root b2DynamicTree_init) \<and> ComputeHeight b2DynamicTree_init = None"
  by (simp add: ComputeHeight_def ComputeHeight_at.simps GetHeight_def b2DynamicTree_init_def
        b2_nullNode_def)

end
